theory Spec2Isabelle
  imports Main
begin

section \<open>Python values used by update_dependencies.py\<close>

text \<open>
  Strings are lists of characters, read as code points 0..255. Exceptions are values:
  a function of the script that can raise returns \<open>exn + 'a\<close>, with \<open>Inl\<close> the exception
  that leaves the function.
\<close>

datatype exn =
    URLError | HTTPError | JSONDecodeError | KeyError
  | ValueError | TypeError | IndexError | AttributeError | TimeoutError
  | FileNotFoundError | FileExistsError | NotADirectoryError | IsADirectoryError | OSError

definition code :: "char \<Rightarrow> nat" where
  "code c = of_char c"

fun str_lt :: "string \<Rightarrow> string \<Rightarrow> bool" where
  "str_lt [] [] = False"
| "str_lt [] (y # ys) = True"
| "str_lt (x # xs) [] = False"
| "str_lt (x # xs) (y # ys) = (if x = y then str_lt xs ys else code x < code y)"

definition is_space :: "char \<Rightarrow> bool" where
  "is_space c = (code c \<in> {9, 10, 11, 12, 13, 32, 133, 160})"

definition is_decimal :: "char \<Rightarrow> bool" where
  "is_decimal c = (48 \<le> code c \<and> code c \<le> 57)"

definition digit_val :: "char \<Rightarrow> int" where
  "digit_val c = int (code c) - 48"

definition strip :: "string \<Rightarrow> string" where
  "strip s = rev (dropWhile is_space (rev (dropWhile is_space s)))"

fun split_on :: "(char \<Rightarrow> bool) \<Rightarrow> string \<Rightarrow> string list" where
  "split_on d [] = [[]]"
| "split_on d (c # cs) =
     (if d c then [] # split_on d cs
      else (case split_on d cs of [] \<Rightarrow> [[c]] | t # ts \<Rightarrow> (c # t) # ts))"

text \<open>
  \<^verbatim>\<open>int(p)\<close> on a string: surrounding whitespace is dropped, one sign is allowed, then
  groups of decimal digits separated by single underscores; anything else is a
  ValueError. (The limit newer interpreters put on the number of digits, a ValueError
  too, is left out.)
\<close>

definition py_int :: "string \<Rightarrow> exn + int" where
  "py_int p =
     (let s = strip p;
          neg = (s \<noteq> [] \<and> hd s = CHR ''-'');
          body = (if s \<noteq> [] \<and> (hd s = CHR ''-'' \<or> hd s = CHR ''+'') then tl s else s);
          groups = split_on (\<lambda>c. c = CHR ''_'') body
      in if list_all (\<lambda>g. g \<noteq> [] \<and> list_all is_decimal g) groups
         then Inr ((if neg then - 1 else 1) * foldl (\<lambda>a c. 10 * a + digit_val c) 0 (concat groups))
         else Inl ValueError)"

fun str_of_nat :: "nat \<Rightarrow> string" where
  "str_of_nat n =
     (if n < 10 then [char_of (48 + n)]
      else str_of_nat (n div 10) @ [char_of (48 + n mod 10)])"

definition str_of_int :: "int \<Rightarrow> string" where
  "str_of_int i = (if i < 0 then CHR ''-'' # str_of_nat (nat (- i)) else str_of_nat (nat i))"

section \<open>compare\_versions\<close>

definition ascii_upper :: "char \<Rightarrow> char" where
  "ascii_upper c = (if 97 \<le> code c \<and> code c \<le> 122 then char_of (code c - 32) else c)"

text \<open>
  \<^verbatim>\<open>re.sub(r'[-_](RELEASE|FINAL|GA)$', '', v, flags=re.IGNORECASE)\<close>: \<open>$\<close> matches at the
  end of the string and just before a newline that ends the string, so the qualifier is
  looked for at the end of the text without that newline.
\<close>

definition ends_with_qualifier :: "string \<Rightarrow> string \<Rightarrow> bool" where
  "ends_with_qualifier w s =
     (length w < length s
      \<and> map ascii_upper (drop (length s - length w) s) = w
      \<and> (s ! (length s - length w - 1) = CHR ''-'' \<or> s ! (length s - length w - 1) = CHR ''_''))"

definition strip_qualifier :: "string \<Rightarrow> string" where
  "strip_qualifier v =
     (let nl = (v \<noteq> [] \<and> last v = CHR 0x0A);
          core = (if nl then butlast v else v);
          rest = (if nl then [CHR 0x0A] else [])
      in case filter (\<lambda>w. ends_with_qualifier w core) [''RELEASE'', ''FINAL'', ''GA''] of
           [] \<Rightarrow> v
         | w # _ \<Rightarrow> take (length core - length w - 1) core @ rest)"

definition is_delim :: "char \<Rightarrow> bool" where
  "is_delim c = (c = CHR ''.'' \<or> c = CHR ''_'' \<or> c = CHR ''-'')"

datatype token = IntTok int | StrTok string

text \<open>The \<^verbatim>\<open>try: int(p) except ValueError: p\<close> of \<^verbatim>\<open>normalize\<close>.\<close>

definition token_of :: "string \<Rightarrow> exn + token" where
  "token_of p =
     (case py_int p of
        Inr n \<Rightarrow> Inr (IntTok n)
      | Inl e \<Rightarrow> if e = ValueError then Inr (StrTok p) else Inl e)"

fun tokens_of :: "string list \<Rightarrow> exn + token list" where
  "tokens_of [] = Inr []"
| "tokens_of (p # ps) =
     (case token_of p of
        Inl e \<Rightarrow> Inl e
      | Inr t \<Rightarrow> (case tokens_of ps of Inl e \<Rightarrow> Inl e | Inr ts \<Rightarrow> Inr (t # ts)))"

definition normalize_version :: "string \<Rightarrow> exn + token list" where
  "normalize_version v = tokens_of (split_on is_delim (strip_qualifier v))"

fun py_str :: "token \<Rightarrow> string" where
  "py_str (IntTok n) = str_of_int n"
| "py_str (StrTok s) = s"

fun compare_pair :: "token \<Rightarrow> token \<Rightarrow> int option" where
  "compare_pair (IntTok a) (IntTok b) =
     (if a < b then Some (- 1) else if a > b then Some 1 else None)"
| "compare_pair a b =
     (if str_lt (py_str a) (py_str b) then Some (- 1)
      else if str_lt (py_str b) (py_str a) then Some 1 else None)"

text \<open>The loop over \<^verbatim>\<open>zip(n1, n2)\<close>: \<open>Some r\<close> is a \<^verbatim>\<open>return r\<close> inside the loop.\<close>

fun compare_loop :: "(token \<times> token) list \<Rightarrow> int option" where
  "compare_loop [] = None"
| "compare_loop ((a, b) # rest) =
     (case compare_pair a b of Some r \<Rightarrow> Some r | None \<Rightarrow> compare_loop rest)"

definition compare_tokens :: "token list \<Rightarrow> token list \<Rightarrow> int" where
  "compare_tokens n1 n2 =
     (case compare_loop (zip n1 n2) of
        Some r \<Rightarrow> r
      | None \<Rightarrow> if length n1 < length n2 then - 1
                else if length n1 > length n2 then 1 else 0)"

definition compare_versions :: "string \<Rightarrow> string \<Rightarrow> exn + int" where
  "compare_versions v1 v2 =
     (case normalize_version v1 of
        Inl e \<Rightarrow> Inl e
      | Inr n1 \<Rightarrow> (case normalize_version v2 of
                    Inl e \<Rightarrow> Inl e
                  | Inr n2 \<Rightarrow> Inr (compare_tokens n1 n2)))"

section \<open>The world the script runs in\<close>

subsection \<open>Paths\<close>

text \<open>
  A path is what pathlib makes of it: an anchor and the list of its components. The
  anchor \<open>Repo\<close> is \<^verbatim>\<open>REPO_ROOT\<close>, the directory of the script; \<open>Root\<close> and \<open>Root2\<close> are the
  roots \<^verbatim>\<open>/\<close> and \<^verbatim>\<open>//\<close> of an absolute path. \<^verbatim>\<open>p / name\<close> splits the name at every slash
  and drops the empty components and the components \<^verbatim>\<open>.\<close>; a name that begins with a slash
  replaces the path. Two paths that pathlib takes for different are taken for different
  files: a component \<^verbatim>\<open>..\<close> stays in the path as pathlib leaves it, and links are not
  followed.
\<close>

datatype anchor = Repo | Root | Root2

datatype path = Path anchor "string list"

definition path_parts :: "string \<Rightarrow> string list" where
  "path_parts s =
     filter (\<lambda>c. c \<noteq> [] \<and> c \<noteq> ''.'') (split_on (\<lambda>c. c = CHR ''/'') s)"

definition path_join :: "path \<Rightarrow> string \<Rightarrow> path" where
  "path_join p s =
     (case p of
        Path an ps \<Rightarrow>
          (let n = length (takeWhile (\<lambda>c. c = CHR ''/'') s)
           in if n = 0 then Path an (ps @ path_parts s)
              else Path (if n = 2 then Root2 else Root) (path_parts s)))"

fun ancestors :: "string list \<Rightarrow> string list list" where
  "ancestors [] = [[]]"
| "ancestors (p # ps) = [] # map ((#) p) (ancestors ps)"

subsection \<open>Files, directories and requests\<close>

text \<open>
  A file holds the bytes written to it. Every request the script sends is appended to
  \<open>requests\<close>, so that the order of the requests can be stated.
\<close>

datatype request =
    SearchMaven string string
  | SearchMvnRepository string string
  | GetUrl string
  | ListBndHub string

record world =
  files :: "path \<Rightarrow> string option"
  dirs :: "path set"
  requests :: "request list"

type_synonym fs = "(path \<Rightarrow> string option) \<times> path set"

definition fs_of :: "world \<Rightarrow> fs" where
  "fs_of w = (files w, dirs w)"

subsection \<open>The network and the operating system\<close>

text \<open>
  What the network answers. For a search or a listing, \<open>Inl e\<close> is the exception raised by
  \<^verbatim>\<open>urlopen\<close>, by reading and decoding the body or by parsing it. A search answer is given
  by what the script reads of it: the number under \<^verbatim>\<open>response.numFound\<close> and the documents
  under \<^verbatim>\<open>response.docs\<close>; an answer without these keys is the KeyError of reading them.
  A field of a search document is absent, null or a string. For a download, \<^verbatim>\<open>urlopen\<close>
  raises, or it returns and \<^verbatim>\<open>response.read()\<close> raises, or the body arrives. Within one
  run a request is answered the same way each time it is sent.
\<close>

datatype jfield = Absent | Null | Str string

record doc =
  doc_latestVersion :: jfield
  doc_v :: jfield
  doc_g :: jfield
  doc_a :: jfield

record search_response =
  numFound :: int
  docs :: "doc list"

datatype http_answer = ConnectError exn | ReadError exn | Body string

text \<open>
  What the operating system answers, given the files and directories there are: \<open>None\<close>
  when it does what it is asked, \<open>Some e\<close> when \<^verbatim>\<open>mkdir\<close> or \<^verbatim>\<open>open\<close> raises \<open>e\<close>. A write
  that raises has written the bytes given with the exception.
\<close>

record env =
  maven_search :: "string \<Rightarrow> string \<Rightarrow> exn + search_response"
  mvnrepository_release :: "string \<Rightarrow> string \<Rightarrow> exn + string option"
  http_get :: "string \<Rightarrow> http_answer"
  bnd_hub_listing :: "string \<Rightarrow> exn + (string \<times> string) list"
  fs_mkdir :: "path \<Rightarrow> fs \<Rightarrow> exn option"
  fs_open :: "path \<Rightarrow> fs \<Rightarrow> exn option"
  fs_write :: "path \<Rightarrow> string \<Rightarrow> fs \<Rightarrow> (exn \<times> string) option"

definition MAVEN_DOWNLOAD_URL :: string where
  "MAVEN_DOWNLOAD_URL = ''https://repo1.maven.org/maven2''"

definition BND_HUB_URL :: string where
  "BND_HUB_URL = ''https://raw.githubusercontent.com/bndtools/bundle-hub/master''"

definition MAVEN_REPOSITORIES :: "(string \<times> string) list" where
  "MAVEN_REPOSITORIES =
     [(''Maven Central'', ''https://repo1.maven.org/maven2''),
      (''Spring Plugins'', ''https://repo.spring.io/plugins-release''),
      (''Spring Libs'', ''https://repo.spring.io/libs-release''),
      (''JBoss'', ''https://repository.jboss.org/nexus/content/repositories/releases''),
      (''Sonatype'', ''https://oss.sonatype.org/content/repositories/releases'')]"

definition REPO_DIR :: path where
  "REPO_DIR = Path Repo [''dependencies'']"

section \<open>download\_jar and download\_jar\_from\_multiple\_repos\<close>

definition ascii_lower :: "char \<Rightarrow> char" where
  "ascii_lower c = (if 65 \<le> code c \<and> code c \<le> 90 then char_of (code c + 32) else c)"

fun contains :: "string \<Rightarrow> string \<Rightarrow> bool" where
  "contains sub [] = (sub = [])"
| "contains sub (c # cs) = (take (length sub) (c # cs) = sub \<or> contains sub cs)"

text \<open>\<^verbatim>\<open>len(data) < 1000 and b'<html' in data.lower()\<close>\<close>

definition is_error_page :: "string \<Rightarrow> bool" where
  "is_error_page data = (length data < 1000 \<and> contains ''<html'' (map ascii_lower data))"

definition replace_dots :: "string \<Rightarrow> string" where
  "replace_dots s = map (\<lambda>c. if c = CHR ''.'' then CHR ''/'' else c) s"

definition jar_name :: "string \<Rightarrow> string \<Rightarrow> string" where
  "jar_name artifact_id version = artifact_id @ ''-'' @ version @ ''.jar''"

definition jar_url :: "string \<Rightarrow> string \<Rightarrow> string \<Rightarrow> string \<Rightarrow> string" where
  "jar_url repo_url group_id artifact_id version =
     repo_url @ ''/'' @ replace_dots group_id @ ''/'' @ artifact_id @ ''/'' @ version
       @ ''/'' @ jar_name artifact_id version"

text \<open>
  \<^verbatim>\<open>dest_dir.mkdir(parents=True, exist_ok=True)\<close>: when the operating system raises, so
  does the call; otherwise the directory and the directories above it are there.
\<close>

definition mkdir_parents :: "path \<Rightarrow> path set \<Rightarrow> path set" where
  "mkdir_parents d ds = (case d of Path an ps \<Rightarrow> ds \<union> Path an ` set (ancestors ps))"

definition made :: "path \<Rightarrow> world \<Rightarrow> world" where
  "made d w = w\<lparr>dirs := mkdir_parents d (dirs w)\<rparr>"

definition mkdir :: "env \<Rightarrow> path \<Rightarrow> world \<Rightarrow> exn + world" where
  "mkdir E d w = (case fs_mkdir E d (fs_of w) of Some e \<Rightarrow> Inl e | None \<Rightarrow> Inr (made d w))"

text \<open>
  \<^verbatim>\<open>open(dest_path, 'wb')\<close> leaves the file empty; \<^verbatim>\<open>f.write(data)\<close> fills it. An exception
  comes with the world as it is when it is raised, for the handler that may catch it.
\<close>

definition open_wb :: "env \<Rightarrow> path \<Rightarrow> world \<Rightarrow> (exn \<times> world) + world" where
  "open_wb E p w =
     (case fs_open E p (fs_of w) of
        Some e \<Rightarrow> Inl (e, w)
      | None \<Rightarrow> Inr (w\<lparr>files := (files w)(p \<mapsto> [])\<rparr>))"

definition write_all :: "env \<Rightarrow> path \<Rightarrow> string \<Rightarrow> world \<Rightarrow> (exn \<times> world) + world" where
  "write_all E p data w =
     (case fs_write E p data (fs_of w) of
        Some (e, written) \<Rightarrow> Inl (e, w\<lparr>files := (files w)(p \<mapsto> written)\<rparr>)
      | None \<Rightarrow> Inr (w\<lparr>files := (files w)(p \<mapsto> data)\<rparr>))"

text \<open>The \<^verbatim>\<open>except (urllib.error.URLError, urllib.error.HTTPError)\<close> of both downloads.\<close>

definition download_handler :: "(exn \<times> world) + (bool \<times> world) \<Rightarrow> exn + (bool \<times> world)" where
  "download_handler r =
     (case r of
        Inl (e, w) \<Rightarrow> if e = URLError \<or> e = HTTPError then Inr (False, w) else Inl e
      | Inr res \<Rightarrow> Inr res)"

text \<open>The body of the \<^verbatim>\<open>try\<close> block of \<^verbatim>\<open>download_jar\<close>, after the request was sent.\<close>

definition try_download_jar ::
  "env \<Rightarrow> string \<Rightarrow> path \<Rightarrow> world \<Rightarrow> (exn \<times> world) + (bool \<times> world)"
where
  "try_download_jar E url dest_path w1 =
     (case http_get E url of
        ConnectError e \<Rightarrow> Inl (e, w1)
      | ReadError e \<Rightarrow> Inl (e, w1)
      | Body data \<Rightarrow>
          if is_error_page data then Inr (False, w1)
          else
            (case open_wb E dest_path w1 of
               Inl x \<Rightarrow> Inl x
             | Inr w2 \<Rightarrow>
                 (case write_all E dest_path data w2 of
                    Inl x \<Rightarrow> Inl x
                  | Inr w3 \<Rightarrow> Inr (True, w3))))"

definition download_jar ::
  "env \<Rightarrow> string \<Rightarrow> string \<Rightarrow> string \<Rightarrow> path \<Rightarrow> string option \<Rightarrow> world \<Rightarrow> exn + (bool \<times> world)"
where
  "download_jar E group_id artifact_id version dest_dir repo_url w =
     (let repo = (case repo_url of None \<Rightarrow> MAVEN_DOWNLOAD_URL | Some u \<Rightarrow> u);
          url = jar_url repo group_id artifact_id version;
          dest_path = path_join dest_dir (jar_name artifact_id version)
      in case mkdir E dest_dir w of
           Inl e \<Rightarrow> Inl e
         | Inr w0 \<Rightarrow>
             download_handler
               (try_download_jar E url dest_path (w0\<lparr>requests := requests w0 @ [GetUrl url]\<rparr>)))"

text \<open>
  The loop of \<^verbatim>\<open>download_jar_from_multiple_repos\<close> over a list of (name, URL) pairs; the
  function itself runs it over \<open>MAVEN_REPOSITORIES\<close>, in the order the dict was written.
\<close>

fun download_jar_from_repos ::
  "env \<Rightarrow> string \<Rightarrow> string \<Rightarrow> string \<Rightarrow> path \<Rightarrow> (string \<times> string) list \<Rightarrow> world
     \<Rightarrow> exn + ((bool \<times> string option) \<times> world)"
where
  "download_jar_from_repos E group_id artifact_id version dest_dir [] w = Inr ((False, None), w)"
| "download_jar_from_repos E group_id artifact_id version dest_dir ((repo_name, repo_url) # rest) w =
     (case download_jar E group_id artifact_id version dest_dir (Some repo_url) w of
        Inl e \<Rightarrow> Inl e
      | Inr (ok, w') \<Rightarrow>
          if ok then Inr ((True, Some repo_name), w')
          else download_jar_from_repos E group_id artifact_id version dest_dir rest w')"

definition download_jar_from_multiple_repos ::
  "env \<Rightarrow> string \<Rightarrow> string \<Rightarrow> string \<Rightarrow> path \<Rightarrow> world \<Rightarrow> exn + ((bool \<times> string option) \<times> world)"
where
  "download_jar_from_multiple_repos E group_id artifact_id version dest_dir w =
     download_jar_from_repos E group_id artifact_id version dest_dir MAVEN_REPOSITORIES w"

section \<open>The bundle hub\<close>

text \<open>
  \<^verbatim>\<open>download_from_bnd_hub\<close> opens the jar before it reads the body, and writes the body
  whatever it is.
\<close>

definition try_download_from_bnd_hub ::
  "env \<Rightarrow> string \<Rightarrow> path \<Rightarrow> world \<Rightarrow> (exn \<times> world) + (bool \<times> world)"
where
  "try_download_from_bnd_hub E url dest_path w1 =
     (case http_get E url of
        ConnectError e \<Rightarrow> Inl (e, w1)
      | ReadError e \<Rightarrow>
          (case open_wb E dest_path w1 of
             Inl x \<Rightarrow> Inl x
           | Inr w2 \<Rightarrow> Inl (e, w2))
      | Body data \<Rightarrow>
          (case open_wb E dest_path w1 of
             Inl x \<Rightarrow> Inl x
           | Inr w2 \<Rightarrow>
               (case write_all E dest_path data w2 of
                  Inl x \<Rightarrow> Inl x
                | Inr w3 \<Rightarrow> Inr (True, w3))))"

definition download_from_bnd_hub ::
  "env \<Rightarrow> string \<Rightarrow> string \<Rightarrow> path \<Rightarrow> world \<Rightarrow> exn + (bool \<times> world)"
where
  "download_from_bnd_hub E bundle_name version dest_dir w =
     (let url = BND_HUB_URL @ ''/'' @ bundle_name @ ''/'' @ jar_name bundle_name version;
          dest_path = path_join dest_dir (jar_name bundle_name version)
      in case mkdir E dest_dir w of
           Inl e \<Rightarrow> Inl e
         | Inr w0 \<Rightarrow>
             download_handler
               (try_download_from_bnd_hub E url dest_path
                  (w0\<lparr>requests := requests w0 @ [GetUrl url]\<rparr>)))"

section \<open>Concrete worlds, networks and operating systems\<close>

definition empty_world :: world where
  "empty_world = \<lparr>files = Map.empty, dirs = {}, requests = []\<rparr>"

text \<open>
  An operating system with the rules of a POSIX file system. \<^verbatim>\<open>mkdir\<close> with parents fails
  where the path is a file or lies below a file. \<^verbatim>\<open>open\<close> for writing fails on a directory,
  below a file, and where the directory that is to hold the file is missing; the anchors
  themselves are directories.
\<close>

definition is_file :: "fs \<Rightarrow> path \<Rightarrow> bool" where
  "is_file f p = (case fst f p of Some data \<Rightarrow> True | None \<Rightarrow> False)"

definition is_dir :: "fs \<Rightarrow> path \<Rightarrow> bool" where
  "is_dir f p = (case p of Path an ps \<Rightarrow> if ps = [] then True else p \<in> snd f)"

definition posix_mkdir :: "path \<Rightarrow> fs \<Rightarrow> exn option" where
  "posix_mkdir p f =
     (case p of
        Path an ps \<Rightarrow>
          if is_file f p then Some FileExistsError
          else if list_ex (\<lambda>q. is_file f (Path an q)) (butlast (ancestors ps))
          then Some NotADirectoryError
          else None)"

definition posix_open :: "path \<Rightarrow> fs \<Rightarrow> exn option" where
  "posix_open p f =
     (case p of
        Path an ps \<Rightarrow>
          if is_dir f p then Some IsADirectoryError
          else if list_ex (\<lambda>q. is_file f (Path an q)) (butlast (ancestors ps))
          then Some NotADirectoryError
          else if is_dir f (Path an (butlast ps)) then None
          else Some FileNotFoundError)"

text \<open>
  A network on which every request fails with URLError, on the POSIX file system; the
  networks below differ from it in what is said.
\<close>

definition quiet_env :: env where
  "quiet_env =
     \<lparr>maven_search = (\<lambda>g a. Inl URLError),
      mvnrepository_release = (\<lambda>g a. Inl URLError),
      http_get = (\<lambda>u. ConnectError URLError),
      bnd_hub_listing = (\<lambda>b. Inl URLError),
      fs_mkdir = posix_mkdir,
      fs_open = posix_open,
      fs_write = (\<lambda>p data f. None)\<rparr>"

text \<open>A network on which every download is answered by the same body.\<close>

definition constant_net :: "string \<Rightarrow> env" where
  "constant_net body = quiet_env\<lparr>http_get := (\<lambda>u. Body body)\<rparr>"

text \<open>A network on which one URL answers with a body and every other one is not found.\<close>

definition single_url_net :: "string \<Rightarrow> string \<Rightarrow> env" where
  "single_url_net url body =
     quiet_env\<lparr>http_get := (\<lambda>u. if u = url then Body body else ConnectError HTTPError)\<rparr>"

text \<open>
  An attempt of \<^verbatim>\<open>download_jar\<close> at a repository fails when the request raises one of the
  two exceptions it catches, or is answered by an error page.
\<close>

definition attempt_fails :: "env \<Rightarrow> string \<Rightarrow> string \<Rightarrow> string \<Rightarrow> string \<times> string \<Rightarrow> bool" where
  "attempt_fails E group_id artifact_id version repo =
     (case http_get E (jar_url (snd repo) group_id artifact_id version) of
        ConnectError e \<Rightarrow> e = URLError \<or> e = HTTPError
      | ReadError e \<Rightarrow> e = URLError \<or> e = HTTPError
      | Body data \<Rightarrow> is_error_page data)"

definition repo_request :: "string \<Rightarrow> string \<Rightarrow> string \<Rightarrow> string \<times> string \<Rightarrow> request" where
  "repo_request group_id artifact_id version repo =
     GetUrl (jar_url (snd repo) group_id artifact_id version)"

text \<open>
  The operating system accepts the directory, and it accepts the file with its bytes, in
  a given world.
\<close>

definition accepts_dir :: "env \<Rightarrow> path \<Rightarrow> world \<Rightarrow> bool" where
  "accepts_dir E d w = (fs_mkdir E d (fs_of w) = None)"

definition accepts_file :: "env \<Rightarrow> path \<Rightarrow> string \<Rightarrow> world \<Rightarrow> bool" where
  "accepts_file E p data w =
     (fs_open E p (fs_of w) = None
      \<and> fs_write E p data (fs_of (w\<lparr>files := (files w)(p \<mapsto> [])\<rparr>)) = None)"

text \<open>A network on which only the third repository of the list holds the artifact.\<close>

definition third_net :: env where
  "third_net =
     single_url_net (jar_url ''https://repo.spring.io/libs-release'' ''org.x'' ''a'' ''1.3.0'')
       ''PK-jar-bytes''"

text \<open>
  The same network for version 1/2, and one on which the first repository stops answering
  while the body is read.
\<close>

definition slash_net :: env where
  "slash_net =
     single_url_net (jar_url ''https://repo.spring.io/libs-release'' ''org.x'' ''a'' ''1/2'')
       ''PK-jar-bytes''"

definition timeout_net :: env where
  "timeout_net =
     quiet_env\<lparr>http_get := (\<lambda>u.
        if u = jar_url ''https://repo1.maven.org/maven2'' ''org.x'' ''a'' ''1.3.0''
        then ReadError TimeoutError
        else if u = jar_url ''https://repo.spring.io/libs-release'' ''org.x'' ''a'' ''1.3.0''
        then Body ''PK-jar-bytes''
        else ConnectError HTTPError)\<rparr>"

text \<open>A world in which \<^verbatim>\<open>dependencies/x\<close> is a file.\<close>

definition blocked_world :: world where
  "blocked_world =
     \<lparr>files = [Path Repo [''dependencies'', ''x''] \<mapsto> ''text''],
      dirs = {Path Repo [''dependencies'']}, requests = []\<rparr>"

section \<open>Resolving the latest version\<close>

record maven_info =
  mi_version :: "string option"
  mi_group_id :: "string option"
  mi_artifact_id :: "string option"

text \<open>\<^verbatim>\<open>d.get(k, default)\<close> and \<^verbatim>\<open>d[k]\<close> on a search document; \<open>None\<close> is Python's None.\<close>

definition field_get :: "jfield \<Rightarrow> string option \<Rightarrow> string option" where
  "field_get f dflt = (case f of Absent \<Rightarrow> dflt | Null \<Rightarrow> None | Str s \<Rightarrow> Some s)"

definition field_index :: "jfield \<Rightarrow> exn + string option" where
  "field_index f = (case f of Absent \<Rightarrow> Inl KeyError | Null \<Rightarrow> Inr None | Str s \<Rightarrow> Inr (Some s))"

text \<open>The body of the \<^verbatim>\<open>try\<close> block of \<^verbatim>\<open>get_latest_version_from_maven\<close>.\<close>

definition read_search_response :: "exn + search_response \<Rightarrow> exn + maven_info option" where
  "read_search_response resp =
     (case resp of
        Inl e \<Rightarrow> Inl e
      | Inr r \<Rightarrow>
          if numFound r > 0 then
            (case docs r of
               [] \<Rightarrow> Inl IndexError
             | d # _ \<Rightarrow>
                 (case field_index (doc_g d) of
                    Inl e \<Rightarrow> Inl e
                  | Inr gid \<Rightarrow>
                      (case field_index (doc_a d) of
                         Inl e \<Rightarrow> Inl e
                       | Inr aid \<Rightarrow>
                           Inr (Some \<lparr>mi_version = field_get (doc_latestVersion d) (field_get (doc_v d) None),
                                      mi_group_id = gid, mi_artifact_id = aid\<rparr>))))
          else Inr None)"

definition get_latest_version_from_maven ::
  "env \<Rightarrow> string \<Rightarrow> string \<Rightarrow> world \<Rightarrow> exn + (maven_info option \<times> world)"
where
  "get_latest_version_from_maven E group_id artifact_id w =
     (let w1 = w\<lparr>requests := requests w @ [SearchMaven group_id artifact_id]\<rparr>
      in case read_search_response (maven_search E group_id artifact_id) of
           Inl e \<Rightarrow>
             if e = URLError \<or> e = HTTPError \<or> e = JSONDecodeError \<or> e = KeyError
             then Inr (None, w1) else Inl e
         | Inr info \<Rightarrow> Inr (info, w1))"

text \<open>
  \<^verbatim>\<open>search_mvnrepository(group_id, artifact_id)\<close>, called without a version. The network
  answers with the text of the release anchor the regular expression finds in the page,
  stripped, or with \<open>None\<close> when the page has no such anchor; \<^verbatim>\<open>except Exception\<close> turns every
  exception into \<open>None\<close>.
\<close>

definition search_mvnrepository ::
  "env \<Rightarrow> string \<Rightarrow> string \<Rightarrow> world \<Rightarrow> maven_info option \<times> world"
where
  "search_mvnrepository E group_id artifact_id w =
     (let w1 = w\<lparr>requests := requests w @ [SearchMvnRepository group_id artifact_id]\<rparr>
      in case mvnrepository_release E group_id artifact_id of
           Inl e \<Rightarrow> (None, w1)
         | Inr None \<Rightarrow> (None, w1)
         | Inr (Some ver) \<Rightarrow>
             (Some \<lparr>mi_version = Some ver, mi_group_id = Some group_id,
                    mi_artifact_id = Some artifact_id\<rparr>, w1))"

subsection \<open>get\_latest\_version\_from\_bnd\_hub\<close>

text \<open>
  \<^verbatim>\<open>str.isdigit\<close>: not empty, and every character a digit; below 256 these are the ten
  decimal digits and the superscripts one, two and three, which \<^verbatim>\<open>int()\<close> rejects.
\<close>

definition py_isdigit :: "string \<Rightarrow> bool" where
  "py_isdigit s = (s \<noteq> [] \<and> list_all (\<lambda>c. is_decimal c \<or> code c \<in> {178, 179, 185}) s)"

fun version_key :: "string list \<Rightarrow> exn + token list" where
  "version_key [] = Inr []"
| "version_key (x # xs) =
     (case (if py_isdigit x then map_sum id IntTok (py_int x) else Inr (StrTok x)) of
        Inl e \<Rightarrow> Inl e
      | Inr t \<Rightarrow> (case version_key xs of Inl e \<Rightarrow> Inl e | Inr ts \<Rightarrow> Inr (t # ts)))"

text \<open>
  \<^verbatim>\<open><\<close> on two lists of ints and strings: the first position where the elements are not
  equal decides, and an int against a string there is a TypeError; a proper prefix is less.
\<close>

fun token_lt :: "token \<Rightarrow> token \<Rightarrow> exn + bool" where
  "token_lt (IntTok x) (IntTok y) = Inr (x < y)"
| "token_lt (StrTok x) (StrTok y) = Inr (str_lt x y)"
| "token_lt (IntTok x) (StrTok y) = Inl TypeError"
| "token_lt (StrTok x) (IntTok y) = Inl TypeError"

fun key_lt :: "token list \<Rightarrow> token list \<Rightarrow> exn + bool" where
  "key_lt [] [] = Inr False"
| "key_lt [] (y # ys) = Inr True"
| "key_lt (x # xs) [] = Inr False"
| "key_lt (x # xs) (y # ys) = (if x = y then key_lt xs ys else token_lt x y)"

text \<open>
  \<^verbatim>\<open>versions.sort(key=..., reverse=True)\<close>: the keys are computed first, then the list is
  sorted downwards, entries with equal keys staying in their order. The sort is written
  as an insertion sort; with two entries, any sort compares exactly that pair.
\<close>

fun keyed :: "string list \<Rightarrow> exn + (token list \<times> string) list" where
  "keyed [] = Inr []"
| "keyed (ver # vs) =
     (case version_key (split_on is_delim ver) of
        Inl e \<Rightarrow> Inl e
      | Inr k \<Rightarrow> (case keyed vs of Inl e \<Rightarrow> Inl e | Inr ks \<Rightarrow> Inr ((k, ver) # ks)))"

fun insert_desc ::
  "token list \<times> string \<Rightarrow> (token list \<times> string) list \<Rightarrow> exn + (token list \<times> string) list"
where
  "insert_desc x [] = Inr [x]"
| "insert_desc x (y # ys) =
     (case key_lt (fst y) (fst x) of
        Inl e \<Rightarrow> Inl e
      | Inr True \<Rightarrow> Inr (x # y # ys)
      | Inr False \<Rightarrow> (case insert_desc x ys of Inl e \<Rightarrow> Inl e | Inr r \<Rightarrow> Inr (y # r)))"

fun sort_desc ::
  "(token list \<times> string) list \<Rightarrow> (token list \<times> string) list \<Rightarrow> exn + (token list \<times> string) list"
where
  "sort_desc acc [] = Inr acc"
| "sort_desc acc (x # xs) =
     (case insert_desc x acc of Inl e \<Rightarrow> Inl e | Inr acc' \<Rightarrow> sort_desc acc' xs)"

definition sort_versions :: "string list \<Rightarrow> exn + string list" where
  "sort_versions vs =
     (case keyed vs of
        Inl e \<Rightarrow> Inl e
      | Inr ks \<Rightarrow> map_sum id (map snd) (sort_desc [] ks))"

definition starts_with :: "string \<Rightarrow> string \<Rightarrow> bool" where
  "starts_with s p = (take (length p) s = p)"

definition ends_with :: "string \<Rightarrow> string \<Rightarrow> bool" where
  "ends_with s p = (length p \<le> length s \<and> drop (length s - length p) s = p)"

text \<open>The versions of the jar files of a listing; an item is (type, name).\<close>

definition listed_versions :: "string \<Rightarrow> (string \<times> string) list \<Rightarrow> string list" where
  "listed_versions bundle_name items =
     map (\<lambda>(ty, name). drop (length bundle_name + 1) (take (length name - 4) name))
       (filter (\<lambda>(ty, name). ty = ''file'' \<and> ends_with name ''.jar''
                  \<and> starts_with name (bundle_name @ ''-'') \<and> ends_with name ''.jar'') items)"

definition get_latest_version_from_bnd_hub ::
  "env \<Rightarrow> string \<Rightarrow> world \<Rightarrow> exn + (string option \<times> world)"
where
  "get_latest_version_from_bnd_hub E bundle_name w =
     (let w1 = w\<lparr>requests := requests w @ [ListBndHub bundle_name]\<rparr>;
          body =
            (case bnd_hub_listing E bundle_name of
               Inl e \<Rightarrow> Inl e
             | Inr items \<Rightarrow>
                 (let versions = listed_versions bundle_name items
                  in if versions \<noteq> [] then
                       (case sort_versions versions of
                          Inl e \<Rightarrow> Inl e
                        | Inr [] \<Rightarrow> Inl IndexError
                        | Inr (first # _) \<Rightarrow> Inr (Some first))
                     else Inr None))
      in case body of
           Inl e \<Rightarrow>
             if e = URLError \<or> e = HTTPError \<or> e = JSONDecodeError then Inr (None, w1)
             else Inl e
         | Inr r \<Rightarrow> Inr (r, w1))"

text \<open>A listing with a numeric and an alphabetic token at the same position.\<close>

definition mixed_listing_net :: env where
  "mixed_listing_net =
     quiet_env\<lparr>bnd_hub_listing := (\<lambda>b. Inr [(''file'', ''osgi.residential-4.3.0.jar''),
                                  (''file'', ''osgi.residential-4.3.beta.jar'')])\<rparr>"

definition numeric_listing_net :: env where
  "numeric_listing_net =
     quiet_env\<lparr>bnd_hub_listing := (\<lambda>b. Inr [(''file'', ''osgi.residential-4.3.0.jar''),
                                  (''file'', ''osgi.residential-4.10.0.jar''),
                                  (''dir'', ''osgi.residential-9.jar''),
                                  (''file'', ''README.md'')])\<rparr>"

section \<open>The full update of main\<close>

text \<open>
  An entry of the parsed index. \<^verbatim>\<open>parse_index_xml\<close> keeps an entry when identity and
  version were found; the URL and the type stay None when the resource has no such
  attribute.
\<close>

record bundle_info =
  b_identity :: string
  b_version :: string
  b_url :: "string option"
  b_type :: "string option"

text \<open>
  \<^verbatim>\<open>load_config\<close>: a mapping marked local, or without both coordinates, is stored as None.
\<close>

record mapping_entry =
  me_local :: bool
  me_groupId :: "string option"
  me_artifactId :: "string option"

definition coordinates :: "mapping_entry \<Rightarrow> (string \<times> string) option" where
  "coordinates m =
     (if me_local m then None
      else (case (me_groupId m, me_artifactId m) of
              (Some gid, Some aid) \<Rightarrow> Some (gid, aid)
            | _ \<Rightarrow> None))"

type_synonym bundle_to_maven = "string \<Rightarrow> (string \<times> string) option option"

definition load_bundles :: "(string \<Rightarrow> mapping_entry option) \<Rightarrow> bundle_to_maven" where
  "load_bundles config = (\<lambda>name. map_option coordinates (config name))"

subsection \<open>Grouping by identity and keeping one entry each\<close>

text \<open>
  \<open>bundle_versions\<close> is a dict filled in index order; it is kept as the list of its items
  in insertion order.
\<close>

fun add_bundle :: "bundle_info \<Rightarrow> (string \<times> bundle_info list) list \<Rightarrow> (string \<times> bundle_info list) list" where
  "add_bundle b [] = [(b_identity b, [b])]"
| "add_bundle b ((k, vs) # rest) =
     (if k = b_identity b then (k, vs @ [b]) # rest else (k, vs) # add_bundle b rest)"

definition bundle_versions :: "bundle_info list \<Rightarrow> (string \<times> bundle_info list) list" where
  "bundle_versions bundles = foldl (\<lambda>acc b. add_bundle b acc) [] bundles"

text \<open>
  \<^verbatim>\<open>versions.sort(key=lambda x: x['version'], reverse=True)\<close>: downwards by the version
  string as it is, entries with the same string staying in their order.
\<close>

fun insert_by_version :: "bundle_info \<Rightarrow> bundle_info list \<Rightarrow> bundle_info list" where
  "insert_by_version x [] = [x]"
| "insert_by_version x (y # ys) =
     (if str_lt (b_version y) (b_version x) then x # y # ys else y # insert_by_version x ys)"

definition sort_by_version :: "bundle_info list \<Rightarrow> bundle_info list" where
  "sort_by_version vs = foldl (\<lambda>acc x. insert_by_version x acc) [] vs"

text \<open>The order of that sort: the version string of \<open>x\<close> is not below the one of \<open>y\<close>.\<close>

definition version_ge :: "bundle_info \<Rightarrow> bundle_info \<Rightarrow> bool" where
  "version_ge x y = (\<not> str_lt (b_version x) (b_version y))"

fun latest_bundles :: "(string \<times> bundle_info list) list \<Rightarrow> exn + (string \<times> bundle_info) list" where
  "latest_bundles [] = Inr []"
| "latest_bundles ((k, vs) # rest) =
     (case sort_by_version vs of
        [] \<Rightarrow> Inl IndexError
      | b # _ \<Rightarrow> (case latest_bundles rest of Inl e \<Rightarrow> Inl e | Inr r \<Rightarrow> Inr ((k, b) # r)))"

text \<open>\<^verbatim>\<open>sorted(latest_bundles.items())\<close>: upwards by identity; the identities differ.\<close>

fun insert_item :: "string \<times> bundle_info \<Rightarrow> (string \<times> bundle_info) list \<Rightarrow> (string \<times> bundle_info) list" where
  "insert_item x [] = [x]"
| "insert_item x (y # ys) =
     (if str_lt (fst x) (fst y) then x # y # ys else y # insert_item x ys)"

definition sorted_items :: "(string \<times> bundle_info) list \<Rightarrow> (string \<times> bundle_info) list" where
  "sorted_items xs = foldl (\<lambda>acc x. insert_item x acc) [] xs"

subsection \<open>One index entry\<close>

datatype outcome =
    Updated string string string string string
  | UpToDate string string string string
  | Unavailable string string string string "string option"
  | LocalOnly string string "string option"
  | NotMapped string string "string option"
  | Error string string string string

text \<open>
  The fields are, in order: Updated identity group\_id artifact\_id old\_version
  new\_version; UpToDate identity group\_id artifact\_id version; Unavailable identity
  group\_id artifact\_id local\_version url; LocalOnly and NotMapped identity local\_version
  url; Error identity reason group\_id artifact\_id.
\<close>

record results =
  r_updated :: "outcome list"
  r_up_to_date :: "outcome list"
  r_unavailable :: "outcome list"
  r_local_only :: "outcome list"
  r_not_mapped :: "outcome list"
  r_errors :: "outcome list"

definition empty_results :: results where
  "empty_results =
     \<lparr>r_updated = [], r_up_to_date = [], r_unavailable = [],
      r_local_only = [], r_not_mapped = [], r_errors = []\<rparr>"

fun add_outcome :: "outcome \<Rightarrow> results \<Rightarrow> results" where
  "add_outcome (Updated i gid aid old new) r = r\<lparr>r_updated := r_updated r @ [Updated i gid aid old new]\<rparr>"
| "add_outcome (UpToDate i gid aid ver) r = r\<lparr>r_up_to_date := r_up_to_date r @ [UpToDate i gid aid ver]\<rparr>"
| "add_outcome (Unavailable i gid aid ver u) r = r\<lparr>r_unavailable := r_unavailable r @ [Unavailable i gid aid ver u]\<rparr>"
| "add_outcome (LocalOnly i ver u) r = r\<lparr>r_local_only := r_local_only r @ [LocalOnly i ver u]\<rparr>"
| "add_outcome (NotMapped i ver u) r = r\<lparr>r_not_mapped := r_not_mapped r @ [NotMapped i ver u]\<rparr>"
| "add_outcome (Error i reason gid aid) r = r\<lparr>r_errors := r_errors r @ [Error i reason gid aid]\<rparr>"

definition count_results :: "results \<Rightarrow> nat" where
  "count_results r =
     length (r_updated r) + length (r_up_to_date r) + length (r_unavailable r)
       + length (r_local_only r) + length (r_not_mapped r) + length (r_errors r)"

text \<open>\<^verbatim>\<open>get_dest_dir_from_url\<close>: \<^verbatim>\<open>url.split('/')\<close> on None is an AttributeError.\<close>

definition get_dest_dir_from_url :: "string option \<Rightarrow> exn + path" where
  "get_dest_dir_from_url url =
     (case url of
        None \<Rightarrow> Inl AttributeError
      | Some u \<Rightarrow>
          (case split_on (\<lambda>c. c = CHR ''/'') u of
             [] \<Rightarrow> Inr REPO_DIR
           | p # _ \<Rightarrow> Inr (path_join REPO_DIR p)))"

text \<open>
  The body of the loop over the index entries; its result is the record the body appends
  to the list of its kind. \<^verbatim>\<open>compare_versions\<close> of a version that is None is the TypeError
  of \<^verbatim>\<open>re.sub\<close>.
\<close>

definition process_bundle ::
  "env \<Rightarrow> bundle_to_maven \<Rightarrow> string \<times> bundle_info \<Rightarrow> world \<Rightarrow> exn + (outcome \<times> world)"
where
  "process_bundle E B item w =
     (let identity = fst item;
          local_version = b_version (snd item);
          url = b_url (snd item)
      in case B identity of
           None \<Rightarrow> Inr (NotMapped identity local_version url, w)
         | Some None \<Rightarrow> Inr (LocalOnly identity local_version url, w)
         | Some (Some (group_id, artifact_id)) \<Rightarrow>
             (case get_latest_version_from_maven E group_id artifact_id w of
                Inl e \<Rightarrow> Inl e
              | Inr (None, w1) \<Rightarrow>
                  Inr (Unavailable identity group_id artifact_id local_version url, w1)
              | Inr (Some info, w1) \<Rightarrow>
                  (case mi_version info of
                     None \<Rightarrow> Inl TypeError
                   | Some latest_version \<Rightarrow>
                       (case compare_versions local_version latest_version of
                          Inl e \<Rightarrow> Inl e
                        | Inr cmp \<Rightarrow>
                            if cmp \<ge> 0
                            then Inr (UpToDate identity group_id artifact_id local_version, w1)
                            else
                              (case get_dest_dir_from_url url of
                                 Inl e \<Rightarrow> Inl e
                               | Inr dest_dir \<Rightarrow>
                                   (case download_jar E group_id artifact_id latest_version dest_dir None w1 of
                                      Inl e \<Rightarrow> Inl e
                                    | Inr (ok, w2) \<Rightarrow>
                                        if ok
                                        then Inr (Updated identity group_id artifact_id
                                                    local_version latest_version, w2)
                                        else Inr (Error identity (''Failed to download '' @ latest_version)
                                                    group_id artifact_id, w2)))))))"

fun process_bundles ::
  "env \<Rightarrow> bundle_to_maven \<Rightarrow> (string \<times> bundle_info) list \<Rightarrow> results \<Rightarrow> world \<Rightarrow> exn + (results \<times> world)"
where
  "process_bundles E B [] r w = Inr (r, w)"
| "process_bundles E B (item # rest) r w =
     (case process_bundle E B item w of
        Inl e \<Rightarrow> Inl e
      | Inr (out, w') \<Rightarrow> process_bundles E B rest (add_outcome out r) w')"

section \<open>download\_additional\_bundles\<close>

text \<open>
  An entry of \<^verbatim>\<open>additionalDownloads\<close>: whether it has a \<^verbatim>\<open>_comment\<close> key, and the values of
  its other keys, None when the key is missing.
\<close>

record download_item =
  i_comment :: bool
  i_groupId :: "string option"
  i_artifactId :: "string option"
  i_folder :: "string option"
  i_version :: "string option"
  i_source :: "string option"
  i_repoUrl :: "string option"

datatype additional_outcome =
    Downloaded string string "string option" string string
  | Failed string string string
  | AlreadyExists string string "string option" string

text \<open>
  The fields are: Downloaded group\_id artifact\_id version folder source; Failed group\_id
  artifact\_id reason; AlreadyExists group\_id artifact\_id version folder.
\<close>

record add_results =
  a_downloaded :: "additional_outcome list"
  a_errors :: "additional_outcome list"
  a_already_exists :: "additional_outcome list"

definition empty_add_results :: add_results where
  "empty_add_results = \<lparr>a_downloaded = [], a_errors = [], a_already_exists = []\<rparr>"

fun add_additional :: "additional_outcome \<Rightarrow> add_results \<Rightarrow> add_results" where
  "add_additional (Downloaded gid aid ver folder src) r =
     r\<lparr>a_downloaded := a_downloaded r @ [Downloaded gid aid ver folder src]\<rparr>"
| "add_additional (Failed gid aid reason) r =
     r\<lparr>a_errors := a_errors r @ [Failed gid aid reason]\<rparr>"
| "add_additional (AlreadyExists gid aid ver folder) r =
     r\<lparr>a_already_exists := a_already_exists r @ [AlreadyExists gid aid ver folder]\<rparr>"

text \<open>Truth of an optional string, and its text in an f-string.\<close>

definition truthy :: "string option \<Rightarrow> bool" where
  "truthy s = (case s of None \<Rightarrow> False | Some t \<Rightarrow> t \<noteq> [])"

definition py_format :: "string option \<Rightarrow> string" where
  "py_format s = (case s of None \<Rightarrow> ''None'' | Some t \<Rightarrow> t)"

definition path_exists :: "world \<Rightarrow> path \<Rightarrow> bool" where
  "path_exists w p = (if is_file (fs_of w) p then True else is_dir (fs_of w) p)"

text \<open>
  The version of an entry that pins none: Maven Central first, and mvnrepository when
  Maven Central gave nothing.
\<close>

definition resolve_latest ::
  "env \<Rightarrow> string \<Rightarrow> string \<Rightarrow> world \<Rightarrow> exn + (maven_info option \<times> world)"
where
  "resolve_latest E group_id artifact_id w =
     (case get_latest_version_from_maven E group_id artifact_id w of
        Inl e \<Rightarrow> Inl e
      | Inr (Some info, w1) \<Rightarrow> Inr (Some info, w1)
      | Inr (None, w1) \<Rightarrow> Inr (search_mvnrepository E group_id artifact_id w1))"

text \<open>
  The download of an entry: from its own repository URL only when it has one; otherwise
  from Maven Central and, when that fails, from the list of repositories.
\<close>

definition fetch_additional ::
  "env \<Rightarrow> string \<Rightarrow> string \<Rightarrow> string \<Rightarrow> path \<Rightarrow> string option \<Rightarrow> world
     \<Rightarrow> exn + ((bool \<times> string) \<times> world)"
where
  "fetch_additional E group_id artifact_id version dest_dir repo_url w =
     (if truthy repo_url then
        (case download_jar E group_id artifact_id version dest_dir repo_url w of
           Inl e \<Rightarrow> Inl e
         | Inr (ok, w1) \<Rightarrow> Inr ((ok, py_format repo_url), w1))
      else
        (case download_jar E group_id artifact_id version dest_dir None w of
           Inl e \<Rightarrow> Inl e
         | Inr (ok, w1) \<Rightarrow>
             if ok then Inr ((True, ''Maven Central''), w1)
             else
               (case download_jar_from_multiple_repos E group_id artifact_id version dest_dir w1 of
                  Inl e \<Rightarrow> Inl e
                | Inr ((ok2, repo_name), w2) \<Rightarrow>
                    Inr ((ok2, if ok2 then py_format repo_name else ''Maven Central''), w2))))"

definition process_item ::
  "env \<Rightarrow> bool \<Rightarrow> download_item \<Rightarrow> world \<Rightarrow> exn + (additional_outcome option \<times> world)"
where
  "process_item E check_existing item w =
     (if i_comment item \<and> i_groupId item = None then Inr (None, w)
      else if \<not> (truthy (i_groupId item) \<and> truthy (i_artifactId item)) then Inr (None, w)
      else
        (let group_id = py_format (i_groupId item);
             artifact_id = py_format (i_artifactId item);
             folder = (case i_folder item of None \<Rightarrow> ''misc'' | Some f \<Rightarrow> f);
             pinned_version = i_version item;
             source = (case i_source item of None \<Rightarrow> ''Maven Central'' | Some s \<Rightarrow> s);
             dest_dir = path_join REPO_DIR folder
         in if source = ''BND Hub'' then
              (let version = (if truthy pinned_version then py_format pinned_version else ''4.3.0'');
                   dest_path = path_join dest_dir (jar_name artifact_id version)
               in if check_existing \<and> path_exists w dest_path
                  then Inr (Some (AlreadyExists group_id artifact_id (Some version) folder), w)
                  else
                    (case download_from_bnd_hub E artifact_id version dest_dir w of
                       Inl e \<Rightarrow> Inl e
                     | Inr (ok, w1) \<Rightarrow>
                         if ok
                         then Inr (Some (Downloaded group_id artifact_id (Some version) folder ''BND Hub''), w1)
                         else Inr (Some (Failed group_id artifact_id ''Failed to download from BND Hub''), w1)))
            else
              (case (if truthy pinned_version then Inr (Some pinned_version, w)
                     else (case resolve_latest E group_id artifact_id w of
                             Inl e \<Rightarrow> Inl e
                           | Inr (None, w1) \<Rightarrow> Inr (None, w1)
                           | Inr (Some info, w1) \<Rightarrow> Inr (Some (mi_version info), w1))) of
                 Inl e \<Rightarrow> Inl e
               | Inr (None, w1) \<Rightarrow>
                   Inr (Some (Failed group_id artifact_id ''Not found on Maven Central or mvnrepository''), w1)
               | Inr (Some latest_version, w1) \<Rightarrow>
                   (let dest_path = path_join dest_dir (jar_name artifact_id (py_format latest_version))
                    in if check_existing \<and> path_exists w1 dest_path
                       then Inr (Some (AlreadyExists group_id artifact_id latest_version folder), w1)
                       else
                         (case fetch_additional E group_id artifact_id (py_format latest_version)
                                 dest_dir (i_repoUrl item) w1 of
                            Inl e \<Rightarrow> Inl e
                          | Inr ((ok, actual_source), w2) \<Rightarrow>
                              if ok
                              then Inr (Some (Downloaded group_id artifact_id latest_version folder actual_source), w2)
                              else Inr (Some (Failed group_id artifact_id
                                          (''Failed to download '' @ py_format latest_version
                                             @ '' from any repository'')), w2))))))"

fun process_items ::
  "env \<Rightarrow> bool \<Rightarrow> download_item list \<Rightarrow> add_results \<Rightarrow> world \<Rightarrow> exn + (add_results \<times> world)"
where
  "process_items E check_existing [] r w = Inr (r, w)"
| "process_items E check_existing (item # rest) r w =
     (case process_item E check_existing item w of
        Inl e \<Rightarrow> Inl e
      | Inr (None, w') \<Rightarrow> process_items E check_existing rest r w'
      | Inr (Some out, w') \<Rightarrow> process_items E check_existing rest (add_additional out r) w')"

definition download_additional_bundles ::
  "env \<Rightarrow> download_item list \<Rightarrow> bool \<Rightarrow> world \<Rightarrow> exn + (add_results \<times> world)"
where
  "download_additional_bundles E additional_downloads check_existing w =
     (if additional_downloads = [] then Inr (empty_add_results, w)
      else process_items E check_existing additional_downloads empty_add_results w)"

section \<open>main without flags\<close>

text \<open>
  The index is \<open>None\<close> when \<^verbatim>\<open>index.xml\<close> does not exist, and otherwise the list
  \<^verbatim>\<open>parse_index_xml\<close> returns. The result holds the six lists of the index entries and the
  lists of the additional downloads; the report and the rebuilding of the index which
  follow are not part of it.
\<close>

definition main_update ::
  "env \<Rightarrow> (string \<Rightarrow> mapping_entry option) \<Rightarrow> download_item list \<Rightarrow> bundle_info list option \<Rightarrow> world
     \<Rightarrow> exn + ((results \<times> add_results) \<times> world)"
where
  "main_update E config additional_downloads index w =
     (let bundles = (case index of None \<Rightarrow> [] | Some bs \<Rightarrow> bs)
      in case latest_bundles (bundle_versions bundles) of
           Inl e \<Rightarrow> Inl e
         | Inr latest \<Rightarrow>
             (case process_bundles E (load_bundles config) (sorted_items latest) empty_results w of
                Inl e \<Rightarrow> Inl e
              | Inr (r, w1) \<Rightarrow>
                  (case download_additional_bundles E additional_downloads False w1 of
                     Inl e \<Rightarrow> Inl e
                   | Inr (ar, w2) \<Rightarrow> Inr ((r, ar), w2))))"

section \<open>Notions for stating what the runs do\<close>

text \<open>
  The central search counts as not found: it raised one of the four exceptions that
  \<^verbatim>\<open>get_latest_version_from_maven\<close> catches, or it found nothing, or the first document has
  no \<^verbatim>\<open>g\<close> or no \<^verbatim>\<open>a\<close>, which is the KeyError of reading them.
\<close>

definition central_not_found :: "env \<Rightarrow> string \<Rightarrow> string \<Rightarrow> bool" where
  "central_not_found E group_id artifact_id =
     (case maven_search E group_id artifact_id of
        Inl e \<Rightarrow> e = URLError \<or> e = HTTPError \<or> e = JSONDecodeError \<or> e = KeyError
      | Inr r \<Rightarrow>
          if numFound r > 0
          then (case docs r of [] \<Rightarrow> False | d # _ \<Rightarrow> doc_g d = Absent \<or> doc_a d = Absent)
          else True)"







text \<open>No file of \<open>w\<close> is missing in \<open>w'\<close>: the script removes no file.\<close>

definition keeps :: "world \<Rightarrow> world \<Rightarrow> bool" where
  "keeps w w' = (\<forall>p. files w p \<noteq> None \<longrightarrow> files w' p \<noteq> None)"

section \<open>Concrete index entries, mappings and networks\<close>

definition entry :: "string \<Rightarrow> string \<Rightarrow> string option \<Rightarrow> bundle_info" where
  "entry name ver url =
     \<lparr>b_identity = name, b_version = ver, b_url = url, b_type = Some ''osgi.bundle''\<rparr>"

text \<open>The identity X is mapped to org.x:a, the identity L is marked local.\<close>

definition example_config :: "string \<Rightarrow> mapping_entry option" where
  "example_config name =
     (if name = ''X'' then Some \<lparr>me_local = False, me_groupId = Some ''org.x'', me_artifactId = Some ''a''\<rparr>
      else if name = ''L'' then Some \<lparr>me_local = True, me_groupId = None, me_artifactId = None\<rparr>
      else None)"

text \<open>
  Maven Central cannot be reached; mvnrepository shows release 2.0.0; every download is
  answered.
\<close>

definition central_down_net :: env where
  "central_down_net =
     quiet_env\<lparr>mvnrepository_release := (\<lambda>g a. Inr (Some ''2.0.0'')),
               http_get := (\<lambda>u. Body ''PK-jar-bytes'')\<rparr>"

text \<open>Maven Central knows version 1.3.0 of everything, and every download is answered.\<close>

definition newer_net :: env where
  "newer_net =
     quiet_env\<lparr>maven_search := (\<lambda>g a. Inr \<lparr>numFound = 1,
          docs = [\<lparr>doc_latestVersion = Str ''1.3.0'', doc_v = Absent, doc_g = Str g, doc_a = Str a\<rparr>]\<rparr>),
               http_get := (\<lambda>u. Body ''PK-jar-bytes'')\<rparr>"

text \<open>Maven Central knows version 1.3.0, and no download succeeds.\<close>

definition no_download_net :: env where
  "no_download_net = newer_net\<lparr>http_get := (\<lambda>u. ConnectError HTTPError)\<rparr>"

definition unpinned_item :: download_item where
  "unpinned_item =
     \<lparr>i_comment = False, i_groupId = Some ''org.x'', i_artifactId = Some ''a'',
      i_folder = Some ''libs'', i_version = None, i_source = None, i_repoUrl = None\<rparr>"


text \<open>An entry with a pinned version, one from the bundle hub, and a comment.\<close>

definition pinned_item :: download_item where
  "pinned_item =
     \<lparr>i_comment = False, i_groupId = Some ''org.y'', i_artifactId = Some ''b'',
      i_folder = None, i_version = Some ''2.0'', i_source = None, i_repoUrl = None\<rparr>"

definition comment_item :: download_item where
  "comment_item =
     \<lparr>i_comment = True, i_groupId = None, i_artifactId = None,
      i_folder = None, i_version = None, i_source = None, i_repoUrl = None\<rparr>"

section \<open>Properties of the version comparator\<close>

lemma str_lt_irrefl: "\<not> str_lt s s"
  by (induction s) auto

lemma code_inj: "code x = code y \<Longrightarrow> x = y"
  by (simp add: code_def)

lemma str_lt_asym: "str_lt a b \<Longrightarrow> \<not> str_lt b a"
  by (induction a b rule: str_lt.induct) (auto split: if_splits)

lemma str_lt_total: "\<not> str_lt a b \<Longrightarrow> \<not> str_lt b a \<Longrightarrow> a = b"
  by (induction a b rule: str_lt.induct) (auto split: if_splits dest: code_inj)

lemma str_lt_trans: "str_lt a b \<Longrightarrow> str_lt b c \<Longrightarrow> str_lt a c"
proof (induction a b arbitrary: c rule: str_lt.induct)
  case (1)
  then show ?case by simp
next
  case (2 y ys)
  then show ?case by (cases c) simp_all
next
  case (3 x xs)
  then show ?case by simp
next
  case (4 x xs y ys)
  then show ?case
    by (cases c) (auto split: if_splits)
qed

lemma not_str_lt_trans:
  "\<not> str_lt a b \<Longrightarrow> \<not> str_lt b c \<Longrightarrow> \<not> str_lt a c"
  by (metis str_lt_total str_lt_trans)

lemma compare_pair_refl: "compare_pair a a = None"
  by (cases a) (simp_all add: str_lt_irrefl)

lemma compare_pair_swap: "compare_pair b a = map_option uminus (compare_pair a b)"
  by (cases a; cases b) (auto simp: str_lt_asym)

lemma compare_loop_refl: "compare_loop (zip n n) = None"
  by (induction n) (simp_all add: compare_pair_refl)

lemma compare_loop_swap:
  "compare_loop (zip n2 n1) = map_option uminus (compare_loop (zip n1 n2))"
proof (induction n1 arbitrary: n2)
  case Nil
  then show ?case by simp
next
  case (Cons a n1)
  show ?case
  proof (cases n2)
    case Nil
    then show ?thesis by simp
  next
    case (Cons b n2')
    show ?thesis
      using Cons.IH [of n2'] compare_pair_swap [of b a]
      by (cases "compare_pair a b") (simp_all add: Cons)
  qed
qed

lemma compare_tokens_refl: "compare_tokens n n = 0"
  by (simp add: compare_tokens_def compare_loop_refl)

lemma compare_tokens_swap: "compare_tokens n2 n1 = - compare_tokens n1 n2"
  by (cases "compare_loop (zip n1 n2)")
     (simp_all add: compare_tokens_def compare_loop_swap [of n2 n1])

lemma compare_pair_range: "compare_pair a b = Some r \<Longrightarrow> r = - 1 \<or> r = 1"
  by (cases a; cases b) (auto split: if_splits)

lemma compare_loop_range: "compare_loop ps = Some r \<Longrightarrow> r = - 1 \<or> r = 1"
  by (induction ps rule: compare_loop.induct)
     (auto split: option.splits dest: compare_pair_range)

lemma compare_tokens_range:
  "compare_tokens n1 n2 = - 1 \<or> compare_tokens n1 n2 = 0 \<or> compare_tokens n1 n2 = 1"
  using compare_loop_range [of "zip n1 n2"]
  by (auto simp: compare_tokens_def split: option.splits)

text \<open>\<^verbatim>\<open>int()\<close> raises nothing but ValueError, which \<^verbatim>\<open>normalize\<close> catches.\<close>

lemma py_int_raises: "py_int p = Inl e \<Longrightarrow> e = ValueError"
  by (auto simp: py_int_def Let_def split: if_splits)

lemma token_of_returns: "\<exists>t. token_of p = Inr t"
  by (cases "py_int p") (auto simp: token_of_def dest: py_int_raises)

lemma tokens_of_returns: "\<exists>ts. tokens_of ps = Inr ts \<and> length ts = length ps"
proof (induction ps)
  case Nil
  then show ?case by simp
next
  case (Cons p ps)
  obtain t where "token_of p = Inr t" using token_of_returns by blast
  with Cons show ?case by auto
qed

lemma normalize_returns: "\<exists>n. normalize_version v = Inr n"
  using tokens_of_returns by (auto simp: normalize_version_def)

lemma compare_versions_tokens:
  "\<exists>n1 n2. normalize_version v1 = Inr n1 \<and> normalize_version v2 = Inr n2
     \<and> compare_versions v1 v2 = Inr (compare_tokens n1 n2)"
proof -
  obtain n1 where a: "normalize_version v1 = Inr n1" using normalize_returns by blast
  obtain n2 where b: "normalize_version v2 = Inr n2" using normalize_returns by blast
  show ?thesis by (simp add: compare_versions_def a b)
qed

text \<open>
  Claim C3. The comparator returns 0 on equal arguments, swapping the arguments negates
  the result, and it returns -1 for ("1.2.0", "1.10.0"), 0 for ("2.0.0-RELEASE", "2.0.0")
  and -1 for ("1.0", "1.0.0").
\<close>

theorem compare_versions_laws:
  "compare_versions v v = Inr 0
   \<and> (\<exists>r. compare_versions a b = Inr r \<and> compare_versions b a = Inr (- r))
   \<and> compare_versions ''1.2.0'' ''1.10.0'' = Inr (- 1)
   \<and> compare_versions ''2.0.0-RELEASE'' ''2.0.0'' = Inr 0
   \<and> compare_versions ''1.0'' ''1.0.0'' = Inr (- 1)"
proof -
  have r: "compare_versions v v = Inr 0"
    using compare_versions_tokens [of v v] by (auto simp: compare_tokens_refl)
  obtain n1 n2 where n: "normalize_version a = Inr n1" "normalize_version b = Inr n2"
    using normalize_returns by blast
  have s: "\<exists>r. compare_versions a b = Inr r \<and> compare_versions b a = Inr (- r)"
    by (simp add: compare_versions_def n compare_tokens_swap [of n2 n1])
  have e1: "compare_versions ''1.2.0'' ''1.10.0'' = Inr (- 1)" by code_simp
  have e2: "compare_versions ''2.0.0-RELEASE'' ''2.0.0'' = Inr 0" by code_simp
  have e3: "compare_versions ''1.0'' ''1.0.0'' = Inr (- 1)" by code_simp
  show ?thesis using r s e1 e2 e3 by blast
qed

text \<open>
  Claim C8. For every pair of strings the comparator returns, and what it returns is one
  of -1, 0 and 1: no exception leaves it, since a token that \<^verbatim>\<open>int()\<close> rejects stays a
  string.
\<close>

theorem compare_versions_total:
  "\<exists>r. compare_versions a b = Inr r \<and> (r = - 1 \<or> r = 0 \<or> r = 1)"
  using compare_versions_tokens [of a b] compare_tokens_range by auto

section \<open>Properties of the fetcher\<close>

lemma map_sum_Inl: "map_sum id f x = Inl e \<Longrightarrow> x = Inl e"
  by (cases x) simp_all

lemma fs_of_requests [simp]: "fs_of (w\<lparr>requests := r\<rparr>) = fs_of w"
  by (simp add: fs_of_def)

lemma made_simps [simp]:
  "files (made d w) = files w" "requests (made d w) = requests w"
  "dirs (made d w) = mkdir_parents d (dirs w)"
  by (simp_all add: made_def)

lemma mkdir_parents_idem: "mkdir_parents d (mkdir_parents d ds) = mkdir_parents d ds"
  by (cases d) (auto simp: mkdir_parents_def)

lemma made_idem [simp]: "made d (made d w) = made d w"
  by (simp add: made_def mkdir_parents_idem)

lemma made_requests: "made d (w\<lparr>requests := r\<rparr>) = (made d w)\<lparr>requests := r\<rparr>"
  by (simp add: made_def)

lemma mkdir_accepted: "accepts_dir E d w \<Longrightarrow> mkdir E d w = Inr (made d w)"
  by (simp add: mkdir_def accepts_dir_def)

lemma store_accepted:
  assumes "accepts_file E p data (made d w)"
  shows "open_wb E p ((made d w)\<lparr>requests := r\<rparr>) = Inr ((made d w)\<lparr>requests := r, files := (files w)(p \<mapsto> [])\<rparr>)"
    and "write_all E p data ((made d w)\<lparr>requests := r, files := (files w)(p \<mapsto> [])\<rparr>)
           = Inr ((made d w)\<lparr>requests := r, files := (files w)(p \<mapsto> data)\<rparr>)"
  using assms
  by (simp_all add: accepts_file_def open_wb_def write_all_def fs_of_def)

lemma download_jar_body:
  assumes "http_get E (jar_url (case repo_url of None \<Rightarrow> MAVEN_DOWNLOAD_URL | Some u \<Rightarrow> u) g a v) = Body data"
    and "accepts_dir E d w"
  shows "is_error_page data \<Longrightarrow>
           download_jar E g a v d repo_url w =
             Inr (False, (made d w)\<lparr>requests := requests w @ [GetUrl (jar_url (case repo_url of None \<Rightarrow> MAVEN_DOWNLOAD_URL | Some u \<Rightarrow> u) g a v)]\<rparr>)"
    and "\<not> is_error_page data \<Longrightarrow> accepts_file E (path_join d (jar_name a v)) data (made d w) \<Longrightarrow>
           download_jar E g a v d repo_url w =
             Inr (True, (made d w)\<lparr>requests := requests w @ [GetUrl (jar_url (case repo_url of None \<Rightarrow> MAVEN_DOWNLOAD_URL | Some u \<Rightarrow> u) g a v)],
                                    files := (files w)(path_join d (jar_name a v) \<mapsto> data)\<rparr>)"
  using assms
  by (simp_all add: download_jar_def try_download_jar_def Let_def mkdir_accepted download_handler_def store_accepted)

text \<open>
  Claim C5, as amended. When the destination directory can be made and the request is
  answered with a body (whatever the status line said, no HTTPError was raised), a body of
  fewer than 1000 bytes that contains \<^verbatim>\<open><html\<close> in any letter case makes \<^verbatim>\<open>download_jar\<close>
  return False with the files untouched; any other body, when the operating system
  accepts the file, is written as it is to \<^verbatim>\<open>dest_dir / "<artifactId>-<version>.jar"\<close>, and
  True is returned.
\<close>

theorem download_jar_rejects_error_page:
  assumes "http_get E (jar_url (case repo_url of None \<Rightarrow> MAVEN_DOWNLOAD_URL | Some u \<Rightarrow> u) g a v) = Body data"
    and "accepts_dir E d w"
  shows "(length data < 1000 \<and> contains ''<html'' (map ascii_lower data) \<longrightarrow>
            (\<exists>w'. download_jar E g a v d repo_url w = Inr (False, w') \<and> files w' = files w))
       \<and> (\<not> (length data < 1000 \<and> contains ''<html'' (map ascii_lower data))
            \<and> accepts_file E (path_join d (jar_name a v)) data (made d w) \<longrightarrow>
            (\<exists>w'. download_jar E g a v d repo_url w = Inr (True, w')
               \<and> files w' = (files w)(path_join d (jar_name a v) \<mapsto> data)))"
  using download_jar_body [OF assms]
  by (simp add: is_error_page_def)

lemma jar_path:
  "path_join (Path Repo [''dependencies'', ''x'']) (jar_name ''a'' ''1.3.0'')
     = Path Repo [''dependencies'', ''x'', ''a-1.3.0.jar'']"
  by (simp add: path_join_def jar_name_def path_parts_def)

lemma env_updates [simp]:
  "fs_mkdir (constant_net body) = posix_mkdir" "fs_open (constant_net body) = posix_open"
  "fs_write (constant_net body) = (\<lambda>p data f. None)" "http_get (constant_net body) = (\<lambda>u. Body body)"
  "fs_mkdir (single_url_net url body) = posix_mkdir" "fs_open (single_url_net url body) = posix_open"
  "fs_write (single_url_net url body) = (\<lambda>p data f. None)"
  "http_get (single_url_net url body) = (\<lambda>u. if u = url then Body body else ConnectError HTTPError)"
  by (simp_all add: constant_net_def single_url_net_def quiet_env_def)

lemma accepts_posix:
  "fs_mkdir E = posix_mkdir \<Longrightarrow> accepts_dir E (Path Repo [''dependencies'', ''x'']) empty_world"
  "fs_mkdir E = posix_mkdir \<Longrightarrow>
     accepts_dir E (Path Repo [''dependencies'', ''x'']) (made (Path Repo [''dependencies'', ''x'']) empty_world)"
  "fs_open E = posix_open \<Longrightarrow> fs_write E = (\<lambda>p data f. None) \<Longrightarrow>
     accepts_file E (Path Repo [''dependencies'', ''x'', ''a-1.3.0.jar'']) data
       (made (Path Repo [''dependencies'', ''x'']) empty_world)"
  by (simp_all add: accepts_dir_def accepts_file_def posix_mkdir_def posix_open_def
        is_file_def is_dir_def fs_of_def empty_world_def mkdir_parents_def)

theorem download_jar_rejects_error_page_witness:
  "(\<exists>w'. download_jar (constant_net ''<html>Error</html>'') ''g'' ''a'' ''1.3.0''
            (Path Repo [''dependencies'', ''x'']) None empty_world = Inr (False, w')
        \<and> files w' = files empty_world)
   \<and> (\<exists>w'. download_jar (constant_net ''PK-jar-bytes'') ''g'' ''a'' ''1.3.0''
            (Path Repo [''dependencies'', ''x'']) None empty_world = Inr (True, w')
        \<and> files w' = (files empty_world)(Path Repo [''dependencies'', ''x'', ''a-1.3.0.jar''] \<mapsto> ''PK-jar-bytes''))"
proof -
  let ?d = "Path Repo [''dependencies'', ''x'']"
  have h1: "http_get (constant_net ''<html>Error</html>'') (jar_url (case None of None \<Rightarrow> MAVEN_DOWNLOAD_URL | Some u \<Rightarrow> u) ''g'' ''a'' ''1.3.0'') = Body ''<html>Error</html>''"
    by simp
  have h2: "http_get (constant_net ''PK-jar-bytes'') (jar_url (case None of None \<Rightarrow> MAVEN_DOWNLOAD_URL | Some u \<Rightarrow> u) ''g'' ''a'' ''1.3.0'') = Body ''PK-jar-bytes''"
    by simp
  have d1: "accepts_dir (constant_net ''<html>Error</html>'') ?d empty_world"
    by (rule accepts_posix) simp
  have d2: "accepts_dir (constant_net ''PK-jar-bytes'') ?d empty_world"
    by (rule accepts_posix) simp
  have f2: "accepts_file (constant_net ''PK-jar-bytes'') (path_join ?d (jar_name ''a'' ''1.3.0'')) ''PK-jar-bytes'' (made ?d empty_world)"
    unfolding jar_path by (rule accepts_posix) simp_all
  have p1: "length ''<html>Error</html>'' < 1000 \<and> contains ''<html'' (map ascii_lower ''<html>Error</html>'')"
    by code_simp
  have p2: "\<not> (length ''PK-jar-bytes'' < 1000 \<and> contains ''<html'' (map ascii_lower ''PK-jar-bytes''))"
    by code_simp
  have a: "\<exists>w'. download_jar (constant_net ''<html>Error</html>'') ''g'' ''a'' ''1.3.0'' ?d None empty_world = Inr (False, w')
        \<and> files w' = files empty_world"
    using download_jar_rejects_error_page [OF h1 d1] p1 by blast
  have b: "\<exists>w'. download_jar (constant_net ''PK-jar-bytes'') ''g'' ''a'' ''1.3.0'' ?d None empty_world = Inr (True, w')
        \<and> files w' = (files empty_world)(path_join ?d (jar_name ''a'' ''1.3.0'') \<mapsto> ''PK-jar-bytes'')"
    using download_jar_rejects_error_page [OF h2 d2] p2 f2 by blast
  from a b [unfolded jar_path] show ?thesis by blast
qed

text \<open>
  The claim as it was written fails where the file system refuses: for version 1/2 the
  jar would lie in a directory \<^verbatim>\<open>a-1\<close> that nobody made, and \<^verbatim>\<open>open\<close> raises
  FileNotFoundError although the body is a valid one; where the destination directory is
  a file, \<^verbatim>\<open>mkdir\<close> raises FileExistsError before anything is requested, so that not even
  an error page makes the function return False.
\<close>

theorem download_jar_unwritable_path:
  "download_jar (constant_net ''PK-jar-bytes'') ''g'' ''a'' ''1/2''
       (Path Repo [''dependencies'', ''x'']) None empty_world = Inl FileNotFoundError
   \<and> \<not> is_error_page ''PK-jar-bytes''
   \<and> download_jar (constant_net ''<html>Error</html>'') ''g'' ''a'' ''1.3.0''
       (Path Repo [''dependencies'', ''x'']) None blocked_world = Inl FileExistsError
   \<and> is_error_page ''<html>Error</html>''"
proof -
  have "map_sum id fst (download_jar (constant_net ''PK-jar-bytes'') ''g'' ''a'' ''1/2''
       (Path Repo [''dependencies'', ''x'']) None empty_world) = Inl FileNotFoundError"
    by code_simp
  moreover have "map_sum id fst (download_jar (constant_net ''<html>Error</html>'') ''g'' ''a'' ''1.3.0''
       (Path Repo [''dependencies'', ''x'']) None blocked_world) = Inl FileExistsError"
    by code_simp
  moreover have "\<not> is_error_page ''PK-jar-bytes''" "is_error_page ''<html>Error</html>''"
    by code_simp+
  ultimately show ?thesis by (simp add: map_sum_Inl)
qed

lemma attempt_failed:
  assumes "attempt_fails E g a v r" and "accepts_dir E d w"
  shows "download_jar E g a v d (Some (snd r)) w =
           Inr (False, (made d w)\<lparr>requests := requests w @ [repo_request g a v r]\<rparr>)"
  using assms
  by (auto simp: attempt_fails_def download_jar_def try_download_jar_def repo_request_def Let_def mkdir_accepted
        download_handler_def split: http_answer.splits)

lemma attempt_succeeded:
  assumes "http_get E (jar_url (snd r) g a v) = Body data" and "\<not> is_error_page data"
    and "accepts_dir E d w" and "accepts_file E (path_join d (jar_name a v)) data (made d w)"
  shows "download_jar E g a v d (Some (snd r)) w =
           Inr (True, (made d w)\<lparr>requests := requests w @ [repo_request g a v r],
                                  files := (files w)(path_join d (jar_name a v) \<mapsto> data)\<rparr>)"
  using download_jar_body(2) [where repo_url = "Some (snd r)", OF _ assms(3) assms(2) assms(4)] assms(1)
  by (simp add: repo_request_def)

text \<open>After a failed attempt the files and directories are those of \<open>made d w\<close>.\<close>

lemma accepts_after_attempt:
  "accepts_dir E d (made d w) \<Longrightarrow> accepts_dir E d ((made d w)\<lparr>requests := r\<rparr>)"
  "accepts_dir E d (made d w) \<Longrightarrow> accepts_dir E d (made d ((made d w)\<lparr>requests := r\<rparr>))"
  "accepts_file E p data (made d w) \<Longrightarrow> accepts_file E p data (made d ((made d w)\<lparr>requests := r\<rparr>))"
  by (simp_all add: accepts_dir_def accepts_file_def fs_of_def mkdir_parents_idem)

lemma repos_all_fail:
  assumes "\<forall>r \<in> set repos. attempt_fails E g a v r"
    and "accepts_dir E d w" and "accepts_dir E d (made d w)"
  shows "\<exists>w'. download_jar_from_repos E g a v d repos w = Inr ((False, None), w')
           \<and> files w' = files w
           \<and> requests w' = requests w @ map (repo_request g a v) repos"
  using assms
proof (induction repos arbitrary: w)
  case Nil
  then show ?case by simp
next
  case (Cons r repos)
  obtain n u where r: "r = (n, u)" by (cases r)
  let ?w1 = "(made d w)\<lparr>requests := requests w @ [repo_request g a v r]\<rparr>"
  have f: "download_jar E g a v d (Some u) w = Inr (False, ?w1)"
    using Cons.prems attempt_failed [where E = E and r = r and d = d and w = w] by (simp add: r)
  have "\<forall>r \<in> set repos. attempt_fails E g a v r" using Cons.prems by simp
  from Cons.IH [OF this, where w = ?w1] Cons.prems(3) obtain w' where
    "download_jar_from_repos E g a v d repos ?w1 = Inr ((False, None), w')"
    "files w' = files ?w1" "requests w' = requests ?w1 @ map (repo_request g a v) repos"
    using accepts_after_attempt by blast
  then show ?case by (intro exI [where x = w']) (simp add: r f)
qed

lemma repos_first_success:
  assumes "\<forall>r \<in> set pre. attempt_fails E g a v r"
    and "http_get E (jar_url u g a v) = Body data" and "\<not> is_error_page data"
    and "accepts_dir E d w" and "accepts_dir E d (made d w)"
    and "accepts_file E (path_join d (jar_name a v)) data (made d w)"
  shows "\<exists>w'. download_jar_from_repos E g a v d (pre @ (n, u) # post) w = Inr ((True, Some n), w')
           \<and> files w' = (files w)(path_join d (jar_name a v) \<mapsto> data)
           \<and> requests w' = requests w @ map (repo_request g a v) (pre @ [(n, u)])"
  using assms(1,4,5,6)
proof (induction pre arbitrary: w)
  case Nil
  have "download_jar E g a v d (Some u) w =
           Inr (True, (made d w)\<lparr>requests := requests w @ [repo_request g a v (n, u)],
                         files := (files w)(path_join d (jar_name a v) \<mapsto> data)\<rparr>)"
    using attempt_succeeded [where E = E and r = "(n, u)" and d = d and w = w] assms(2,3) Nil.prems
    by simp
  then show ?case
    by (intro exI [where x = "(made d w)\<lparr>requests := requests w @ [repo_request g a v (n, u)],
                         files := (files w)(path_join d (jar_name a v) \<mapsto> data)\<rparr>"]) simp
next
  case (Cons r pre)
  obtain m x where r: "r = (m, x)" by (cases r)
  let ?w1 = "(made d w)\<lparr>requests := requests w @ [repo_request g a v r]\<rparr>"
  have f: "download_jar E g a v d (Some x) w = Inr (False, ?w1)"
    using Cons.prems attempt_failed [where E = E and r = r and d = d and w = w] by (simp add: r)
  have "\<forall>r \<in> set pre. attempt_fails E g a v r" using Cons.prems by simp
  from Cons.IH [OF this, where w = ?w1] Cons.prems(3,4) obtain w' where
    "download_jar_from_repos E g a v d (pre @ (n, u) # post) ?w1 = Inr ((True, Some n), w')"
    "files w' = (files ?w1)(path_join d (jar_name a v) \<mapsto> data)"
    "requests w' = requests ?w1 @ map (repo_request g a v) (pre @ [(n, u)])"
    using accepts_after_attempt by blast
  then show ?case by (intro exI [where x = w']) (simp add: r f)
qed

text \<open>
  Claim C6, as amended. \<^verbatim>\<open>download_jar_from_multiple_repos\<close> runs the loop over
  \<open>MAVEN_REPOSITORIES\<close>. Let the destination directory be one the operating system makes.
  The loop asks the repositories in list order, going on while an attempt fails with
  URLError, HTTPError or an error page. When every attempt fails so, it returns
  (False, None), no file has changed, and each repository was asked once. When a
  repository answers with a valid body after all earlier ones failed so, and the operating
  system accepts the file, it returns True with that repository's name, the only file that
  changed is the jar, holding that body, and no later repository was asked.
\<close>

theorem download_jar_from_multiple_repos_fallback:
  "download_jar_from_multiple_repos E g a v d w = download_jar_from_repos E g a v d MAVEN_REPOSITORIES w
   \<and> (accepts_dir E d w \<and> accepts_dir E d (made d w)
        \<and> (\<forall>r \<in> set repos. attempt_fails E g a v r) \<longrightarrow>
        (\<exists>w'. download_jar_from_repos E g a v d repos w = Inr ((False, None), w')
           \<and> files w' = files w
           \<and> requests w' = requests w @ map (repo_request g a v) repos))
   \<and> (accepts_dir E d w \<and> accepts_dir E d (made d w)
        \<and> (\<forall>r \<in> set pre. attempt_fails E g a v r)
        \<and> http_get E (jar_url u g a v) = Body data \<and> \<not> is_error_page data
        \<and> accepts_file E (path_join d (jar_name a v)) data (made d w) \<longrightarrow>
        (\<exists>w'. download_jar_from_repos E g a v d (pre @ (n, u) # post) w = Inr ((True, Some n), w')
           \<and> files w' = (files w)(path_join d (jar_name a v) \<mapsto> data)
           \<and> requests w' = requests w @ map (repo_request g a v) (pre @ [(n, u)])))"
  using repos_all_fail [where repos = repos and E = E and d = d and w = w]
    repos_first_success [where pre = pre and E = E and d = d and w = w and n = n and post = post]
  by (simp add: download_jar_from_multiple_repos_def)

theorem download_jar_from_multiple_repos_fallback_witness:
  "(\<exists>w'. download_jar_from_multiple_repos (constant_net ''<html>Error</html>'') ''org.x'' ''a'' ''1.3.0''
            (Path Repo [''dependencies'', ''x'']) empty_world = Inr ((False, None), w')
        \<and> files w' = files empty_world \<and> length (requests w') = 5)
   \<and> (\<exists>w'. download_jar_from_multiple_repos third_net ''org.x'' ''a'' ''1.3.0''
            (Path Repo [''dependencies'', ''x'']) empty_world = Inr ((True, Some ''Spring Libs''), w')
        \<and> files w' = (files empty_world)(Path Repo [''dependencies'', ''x'', ''a-1.3.0.jar''] \<mapsto> ''PK-jar-bytes'')
        \<and> length (requests w') = 3)"
proof -
  let ?d = "Path Repo [''dependencies'', ''x'']"
  let ?html = "constant_net ''<html>Error</html>''"
  have split: "MAVEN_REPOSITORIES = take 2 MAVEN_REPOSITORIES
      @ (''Spring Libs'', ''https://repo.spring.io/libs-release'') # drop 3 MAVEN_REPOSITORIES"
    by (simp add: MAVEN_REPOSITORIES_def)
  have pre: "\<forall>r \<in> set (take 2 MAVEN_REPOSITORIES). attempt_fails third_net ''org.x'' ''a'' ''1.3.0'' r"
    by (simp add: MAVEN_REPOSITORIES_def attempt_fails_def third_net_def jar_url_def)
  have hit: "http_get third_net (jar_url ''https://repo.spring.io/libs-release'' ''org.x'' ''a'' ''1.3.0'') = Body ''PK-jar-bytes''"
    by (simp add: third_net_def)
  have ok: "\<not> is_error_page ''PK-jar-bytes''"
    by code_simp
  have all: "\<forall>r \<in> set MAVEN_REPOSITORIES. attempt_fails ?html ''org.x'' ''a'' ''1.3.0'' r"
    by (simp add: MAVEN_REPOSITORIES_def attempt_fails_def is_error_page_def ascii_lower_def code_def)
  have dh: "accepts_dir ?html ?d empty_world" "accepts_dir ?html ?d (made ?d empty_world)"
    by (rule accepts_posix, simp)+
  have dt: "accepts_dir third_net ?d empty_world" "accepts_dir third_net ?d (made ?d empty_world)"
    by (rule accepts_posix, simp add: third_net_def)+
  have ft: "accepts_file third_net (path_join ?d (jar_name ''a'' ''1.3.0'')) ''PK-jar-bytes'' (made ?d empty_world)"
    unfolding jar_path by (rule accepts_posix) (simp_all add: third_net_def)
  have a: "\<exists>w'. download_jar_from_multiple_repos ?html ''org.x'' ''a'' ''1.3.0'' ?d empty_world
             = Inr ((False, None), w')
        \<and> files w' = files empty_world
        \<and> requests w' = requests empty_world @ map (repo_request ''org.x'' ''a'' ''1.3.0'') MAVEN_REPOSITORIES"
    using download_jar_from_multiple_repos_fallback [where E = ?html and g = "''org.x''" and a = "''a''"
        and v = "''1.3.0''" and d = ?d and w = empty_world and repos = MAVEN_REPOSITORIES] all dh
    by simp
  have b: "\<exists>w'. download_jar_from_multiple_repos third_net ''org.x'' ''a'' ''1.3.0'' ?d empty_world
             = Inr ((True, Some ''Spring Libs''), w')
        \<and> files w' = (files empty_world)(path_join ?d (jar_name ''a'' ''1.3.0'') \<mapsto> ''PK-jar-bytes'')
        \<and> requests w' = requests empty_world @ map (repo_request ''org.x'' ''a'' ''1.3.0'')
             (take 2 MAVEN_REPOSITORIES @ [(''Spring Libs'', ''https://repo.spring.io/libs-release'')])"
    using download_jar_from_multiple_repos_fallback [where E = third_net and g = "''org.x''" and a = "''a''"
        and v = "''1.3.0''" and d = ?d and w = empty_world and pre = "take 2 MAVEN_REPOSITORIES"
        and n = "''Spring Libs''" and u = "''https://repo.spring.io/libs-release''"
        and data = "''PK-jar-bytes''" and post = "drop 3 MAVEN_REPOSITORIES"]
      pre hit ok split dt ft
    by simp
  have l5: "length MAVEN_REPOSITORIES = 5" by (simp add: MAVEN_REPOSITORIES_def)
  from a obtain w1 where w1: "download_jar_from_multiple_repos ?html ''org.x'' ''a'' ''1.3.0''
            ?d empty_world = Inr ((False, None), w1)" "files w1 = files empty_world"
          "requests w1 = requests empty_world @ map (repo_request ''org.x'' ''a'' ''1.3.0'') MAVEN_REPOSITORIES"
    by blast
  from b obtain w2 where w2: "download_jar_from_multiple_repos third_net ''org.x'' ''a'' ''1.3.0''
            ?d empty_world = Inr ((True, Some ''Spring Libs''), w2)"
        "files w2 = (files empty_world)(path_join ?d (jar_name ''a'' ''1.3.0'') \<mapsto> ''PK-jar-bytes'')"
        "requests w2 = requests empty_world @ map (repo_request ''org.x'' ''a'' ''1.3.0'')
             (take 2 MAVEN_REPOSITORIES @ [(''Spring Libs'', ''https://repo.spring.io/libs-release'')])"
    by blast
  have "length (requests w1) = 5" by (simp add: w1(3) empty_world_def l5)
  moreover have "length (requests w2) = 3" by (simp add: w2(3) empty_world_def l5)
  ultimately show ?thesis using w1(1,2) w2(1,2) [unfolded jar_path] by blast
qed

text \<open>
  The claim as it was written fails in two ways. When the first repository stops
  answering while the body is read, the TimeoutError leaves the loop, and the third
  repository, which holds the jar, is never asked. When the version is 1/2, the
  repository that holds the jar answers and \<^verbatim>\<open>open\<close> raises FileNotFoundError.
\<close>

theorem download_jar_from_multiple_repos_raises:
  "download_jar_from_multiple_repos timeout_net ''org.x'' ''a'' ''1.3.0''
       (Path Repo [''dependencies'', ''x'']) empty_world = Inl TimeoutError
   \<and> download_jar_from_multiple_repos slash_net ''org.x'' ''a'' ''1/2''
       (Path Repo [''dependencies'', ''x'']) empty_world = Inl FileNotFoundError"
proof -
  have "map_sum id fst (download_jar_from_multiple_repos timeout_net ''org.x'' ''a'' ''1.3.0''
       (Path Repo [''dependencies'', ''x'']) empty_world) = Inl TimeoutError"
    by code_simp
  moreover have "map_sum id fst (download_jar_from_multiple_repos slash_net ''org.x'' ''a'' ''1/2''
       (Path Repo [''dependencies'', ''x'']) empty_world) = Inl FileNotFoundError"
    by code_simp
  ultimately show ?thesis by (simp add: map_sum_Inl)
qed

text \<open>
  Claim C10, as amended. When the operating system makes the directory and accepts the
  file, \<^verbatim>\<open>download_from_bnd_hub\<close> writes whatever body it receives to
  \<^verbatim>\<open>dest_dir / "<name>-<version>.jar"\<close> and returns True, also when the body is a short HTML
  page, which \<^verbatim>\<open>download_jar\<close> refuses.
\<close>

theorem download_from_bnd_hub_unvalidated:
  assumes "http_get E (BND_HUB_URL @ ''/'' @ b @ ''/'' @ jar_name b v) = Body data"
    and "accepts_dir E d w"
    and "accepts_file E (path_join d (jar_name b v)) data (made d w)"
  shows "(\<exists>w'. download_from_bnd_hub E b v d w = Inr (True, w')
            \<and> files w' = (files w)(path_join d (jar_name b v) \<mapsto> data))
       \<and> (is_error_page data \<and> http_get E (jar_url repo g a v') = Body data \<longrightarrow>
            (\<exists>w'. download_jar E g a v' d (Some repo) w = Inr (False, w') \<and> files w' = files w))"
proof -
  have "download_from_bnd_hub E b v d w =
          Inr (True, (made d w)\<lparr>requests := requests w @ [GetUrl (BND_HUB_URL @ ''/'' @ b @ ''/'' @ jar_name b v)],
             files := (files w)(path_join d (jar_name b v) \<mapsto> data)\<rparr>)"
    using assms
    by (simp add: download_from_bnd_hub_def try_download_from_bnd_hub_def Let_def mkdir_accepted download_handler_def store_accepted)
  then have hub: "\<exists>w'. download_from_bnd_hub E b v d w = Inr (True, w')
            \<and> files w' = (files w)(path_join d (jar_name b v) \<mapsto> data)"
    by simp
  have maven: "\<exists>w'. download_jar E g a v' d (Some repo) w = Inr (False, w') \<and> files w' = files w"
    if "is_error_page data" and "http_get E (jar_url repo g a v') = Body data"
    using that download_jar_body(1) [where E = E and repo_url = "Some repo" and d = d and w = w] assms(2)
    by simp
  from hub maven show ?thesis by blast
qed

lemma hub_jar_path:
  "path_join (Path Repo [''dependencies'', ''osgi'']) (jar_name ''osgi.residential'' ''4.3.0'')
     = Path Repo [''dependencies'', ''osgi'', ''osgi.residential-4.3.0.jar'']"
  by (simp add: path_join_def jar_name_def path_parts_def)

lemma hub_accepts:
  "accepts_dir (constant_net body) (Path Repo [''dependencies'', ''osgi'']) empty_world"
  "accepts_file (constant_net body) (Path Repo [''dependencies'', ''osgi'', ''osgi.residential-4.3.0.jar'']) data
       (made (Path Repo [''dependencies'', ''osgi'']) empty_world)"
  by (simp_all add: accepts_dir_def accepts_file_def posix_mkdir_def posix_open_def
        is_file_def is_dir_def fs_of_def empty_world_def mkdir_parents_def)

theorem download_from_bnd_hub_unvalidated_witness:
  "(\<exists>w'. download_from_bnd_hub (constant_net ''<html>Error</html>'') ''osgi.residential'' ''4.3.0''
             (Path Repo [''dependencies'', ''osgi'']) empty_world = Inr (True, w')
         \<and> files w' = (files empty_world)(Path Repo [''dependencies'', ''osgi'', ''osgi.residential-4.3.0.jar'']
                          \<mapsto> ''<html>Error</html>''))
   \<and> (\<exists>w'. download_jar (constant_net ''<html>Error</html>'') ''org.osgi'' ''osgi.residential'' ''4.3.0''
             (Path Repo [''dependencies'', ''osgi'']) (Some MAVEN_DOWNLOAD_URL) empty_world = Inr (False, w')
         \<and> files w' = files empty_world)"
proof -
  let ?d = "Path Repo [''dependencies'', ''osgi'']"
  have h: "http_get (constant_net ''<html>Error</html>'')
             (BND_HUB_URL @ ''/'' @ ''osgi.residential'' @ ''/'' @ jar_name ''osgi.residential'' ''4.3.0'')
           = Body ''<html>Error</html>''"
    by simp
  have p: "is_error_page ''<html>Error</html>''"
    by code_simp
  have m: "http_get (constant_net ''<html>Error</html>'')
             (jar_url MAVEN_DOWNLOAD_URL ''org.osgi'' ''osgi.residential'' ''4.3.0'') = Body ''<html>Error</html>''"
    by simp
  have f: "accepts_file (constant_net ''<html>Error</html>'')
             (path_join ?d (jar_name ''osgi.residential'' ''4.3.0'')) ''<html>Error</html>'' (made ?d empty_world)"
    unfolding hub_jar_path by (rule hub_accepts)
  show ?thesis
    using download_from_bnd_hub_unvalidated [OF h hub_accepts(1) f, where repo = MAVEN_DOWNLOAD_URL and g = "''org.osgi''"
        and a = "''osgi.residential''" and v' = "''4.3.0''"] p m
    unfolding hub_jar_path by blast
qed

text \<open>
  The claim as it was written fails for a pinned version 1/2: the body arrives, and
  \<^verbatim>\<open>open\<close> raises FileNotFoundError.
\<close>

theorem download_from_bnd_hub_unwritable_path:
  "download_from_bnd_hub (constant_net ''<html>Error</html>'') ''osgi.residential'' ''1/2''
       (Path Repo [''dependencies'', ''osgi'']) empty_world = Inl FileNotFoundError"
proof -
  have "map_sum id fst (download_from_bnd_hub (constant_net ''<html>Error</html>'') ''osgi.residential'' ''1/2''
       (Path Repo [''dependencies'', ''osgi'']) empty_world) = Inl FileNotFoundError"
    by code_simp
  then show ?thesis by (rule map_sum_Inl)
qed

text \<open>A body that stops while it is read leaves the jar empty.\<close>

lemma bnd_hub_read_error:
  "map_sum id (\<lambda>(ok, w). (ok, files w (Path Repo [''dependencies'', ''x'', ''b-1.jar''])))
     (download_from_bnd_hub (quiet_env\<lparr>http_get := (\<lambda>u. ReadError URLError)\<rparr>) ''b'' ''1''
        (Path Repo [''dependencies'', ''x'']) empty_world)
   = Inr (False, Some [])"
  by code_simp

section \<open>Properties of the full update\<close>


text \<open>
  Claim C1. Of two index entries of the identity X with the versions 1.2.0 and 1.10.0, the
  full update keeps the entry 1.2.0, the greater of the two as strings, although
  \<^verbatim>\<open>compare_versions\<close> puts 1.2.0 below 1.10.0.
\<close>

theorem latest_bundles_keeps_lexicographic_maximum:
  "latest_bundles (bundle_versions
       [entry ''X'' ''1.2.0'' (Some ''libs/x-1.2.0.jar''),
        entry ''X'' ''1.10.0'' (Some ''libs/x-1.10.0.jar'')])
     = Inr [(''X'', entry ''X'' ''1.2.0'' (Some ''libs/x-1.2.0.jar''))]
   \<and> compare_versions ''1.2.0'' ''1.10.0'' = Inr (- 1)"
  by code_simp

text \<open>
  Claim C7. On a listing with the files osgi.residential-4.3.0.jar and
  osgi.residential-4.3.beta.jar the sort compares the keys [4, 3, 0] and [4, 3, 'beta'],
  and the TypeError of that comparison leaves \<^verbatim>\<open>get_latest_version_from_bnd_hub\<close>: no
  maximum is returned.
\<close>

theorem bnd_hub_mixed_tokens_raise:
  "get_latest_version_from_bnd_hub mixed_listing_net ''osgi.residential'' empty_world = Inl TypeError"
proof -
  have "map_sum id fst (get_latest_version_from_bnd_hub mixed_listing_net ''osgi.residential'' empty_world)
          = Inl TypeError"
    by code_simp
  then show ?thesis by (rule map_sum_Inl)
qed

lemma bnd_hub_numeric_listing:
  "map_sum id fst (get_latest_version_from_bnd_hub numeric_listing_net ''osgi.residential'' empty_world) = Inr (Some ''4.10.0'')"
  by code_simp

text \<open>
  Claim C4. An index entry without a URL, mapped to a coordinate of which Maven Central
  has a newer version, gets no outcome record: \<^verbatim>\<open>get_dest_dir_from_url\<close> raises
  AttributeError, which ends the loop body and the whole run.
\<close>

theorem process_bundle_without_url_raises:
  "process_bundle newer_net (load_bundles example_config) (''X'', entry ''X'' ''1.2.0'' None) empty_world
     = Inl AttributeError
   \<and> main_update newer_net example_config [] (Some [entry ''X'' ''1.2.0'' None]) empty_world
     = Inl AttributeError"
proof -
  have "map_sum id fst (process_bundle newer_net (load_bundles example_config)
          (''X'', entry ''X'' ''1.2.0'' None) empty_world) = Inl AttributeError"
    by code_simp
  moreover have "map_sum id fst (main_update newer_net example_config []
          (Some [entry ''X'' ''1.2.0'' None]) empty_world) = Inl AttributeError"
    by code_simp
  ultimately show ?thesis by (simp add: map_sum_Inl)
qed

lemma maven_not_found:
  "central_not_found E g a \<longleftrightarrow>
     get_latest_version_from_maven E g a w = Inr (None, w\<lparr>requests := requests w @ [SearchMaven g a]\<rparr>)"
  by (auto simp: central_not_found_def get_latest_version_from_maven_def read_search_response_def
        field_index_def Let_def split: sum.splits list.splits jfield.splits if_splits)

lemma search_mvnrepository_requests:
  "requests (snd (search_mvnrepository E g a w)) = requests w @ [SearchMvnRepository g a]"
  by (simp add: search_mvnrepository_def Let_def split: sum.splits option.splits)

text \<open>
  An entry of the additional downloads for the coordinate, without a pinned version and
  not from the bundle hub, when the central search found nothing.
\<close>

lemma process_item_after_lookup:
  assumes nf: "central_not_found E g a"
    and item: "i_groupId item = Some g" "g \<noteq> []" "i_artifactId item = Some a" "a \<noteq> []"
      "\<not> truthy (i_version item)" "i_source item \<noteq> Some ''BND Hub''"
  shows "process_item E chk item w =
     (let folder = (case i_folder item of None \<Rightarrow> ''misc'' | Some f \<Rightarrow> f);
          dest_dir = path_join REPO_DIR folder
      in case search_mvnrepository E g a (w\<lparr>requests := requests w @ [SearchMaven g a]\<rparr>) of
           (None, w2) \<Rightarrow> Inr (Some (Failed g a ''Not found on Maven Central or mvnrepository''), w2)
         | (Some info, w2) \<Rightarrow>
             if chk \<and> path_exists w2 (path_join dest_dir (jar_name a (py_format (mi_version info))))
             then Inr (Some (AlreadyExists g a (mi_version info) folder), w2)
             else
               (case fetch_additional E g a (py_format (mi_version info)) dest_dir (i_repoUrl item) w2 of
                  Inl e \<Rightarrow> Inl e
                | Inr ((ok, src), w3) \<Rightarrow>
                    if ok then Inr (Some (Downloaded g a (mi_version info) folder src), w3)
                    else Inr (Some (Failed g a (''Failed to download '' @ py_format (mi_version info)
                                                  @ '' from any repository'')), w3)))"
proof -
  have m: "get_latest_version_from_maven E g a w = Inr (None, w\<lparr>requests := requests w @ [SearchMaven g a]\<rparr>)"
    using nf maven_not_found by blast
  have src: "(case i_source item of None \<Rightarrow> ''Maven Central'' | Some s \<Rightarrow> s) \<noteq> ''BND Hub''"
    using item(6) by (cases "i_source item") simp_all
  show ?thesis
    using item(1-5) src
    by (simp add: process_item_def Let_def truthy_def py_format_def resolve_latest_def m
          split: prod.splits option.splits sum.splits)
qed


text \<open>
  Claim C2, as amended. Let the central search count as not found: it raised URLError,
  HTTPError, JSONDecodeError or KeyError, or it answered with no match. Then
  \<^verbatim>\<open>get_latest_version_from_maven\<close> returns None and raises nothing. For an additional
  download without a pinned version and not from the bundle hub, the mvnrepository lookup
  is the next request; the entry is reported as not found exactly when that lookup gives
  nothing too, and when the lookup gives a version the entry goes on with that version to
  the check for an existing file and to the download. For an index entry the same result
  makes the entry Unavailable at once, after the one request to Maven Central.
\<close>

theorem central_not_found_fallback:
  assumes "central_not_found E g a"
  shows "get_latest_version_from_maven E g a w = Inr (None, w\<lparr>requests := requests w @ [SearchMaven g a]\<rparr>)
     \<and> resolve_latest E g a w = Inr (search_mvnrepository E g a (w\<lparr>requests := requests w @ [SearchMaven g a]\<rparr>))
     \<and> requests (snd (search_mvnrepository E g a (w\<lparr>requests := requests w @ [SearchMaven g a]\<rparr>)))
         = requests w @ [SearchMaven g a, SearchMvnRepository g a]
     \<and> (i_groupId item = Some g \<and> g \<noteq> [] \<and> i_artifactId item = Some a \<and> a \<noteq> []
          \<and> \<not> truthy (i_version item) \<and> i_source item \<noteq> Some ''BND Hub''
        \<longrightarrow> (\<forall>w'. process_item E chk item w
                     = Inr (Some (Failed g a ''Not found on Maven Central or mvnrepository''), w')
                   \<longleftrightarrow> search_mvnrepository E g a (w\<lparr>requests := requests w @ [SearchMaven g a]\<rparr>) = (None, w'))
          \<and> (\<forall>info w2. search_mvnrepository E g a (w\<lparr>requests := requests w @ [SearchMaven g a]\<rparr>) = (Some info, w2)
                \<longrightarrow> process_item E chk item w =
                  (let folder = (case i_folder item of None \<Rightarrow> ''misc'' | Some f \<Rightarrow> f);
                       dest_dir = path_join REPO_DIR folder
                   in if chk \<and> path_exists w2 (path_join dest_dir (jar_name a (py_format (mi_version info))))
                      then Inr (Some (AlreadyExists g a (mi_version info) folder), w2)
                      else
                        (case fetch_additional E g a (py_format (mi_version info)) dest_dir (i_repoUrl item) w2 of
                           Inl e \<Rightarrow> Inl e
                         | Inr ((ok, src), w3) \<Rightarrow>
                             if ok then Inr (Some (Downloaded g a (mi_version info) folder src), w3)
                             else Inr (Some (Failed g a (''Failed to download '' @ py_format (mi_version info)
                                                           @ '' from any repository'')), w3)))))
     \<and> (B i = Some (Some (g, a))
        \<longrightarrow> process_bundle E B (i, b) w
              = Inr (Unavailable i g a (b_version b) (b_url b), w\<lparr>requests := requests w @ [SearchMaven g a]\<rparr>))"
proof -
  let ?w1 = "w\<lparr>requests := requests w @ [SearchMaven g a]\<rparr>"
  have m: "get_latest_version_from_maven E g a w = Inr (None, ?w1)"
    using assms maven_not_found by blast
  have r: "resolve_latest E g a w = Inr (search_mvnrepository E g a ?w1)"
    by (simp add: resolve_latest_def m)
  have q: "requests (snd (search_mvnrepository E g a ?w1)) = requests w @ [SearchMaven g a, SearchMvnRepository g a]"
    by (simp add: search_mvnrepository_requests)
  have u: "process_bundle E B (i, b) w = Inr (Unavailable i g a (b_version b) (b_url b), ?w1)"
    if "B i = Some (Some (g, a))"
    using that by (simp add: process_bundle_def Let_def m)
  have p: "(\<forall>w'. process_item E chk item w
                     = Inr (Some (Failed g a ''Not found on Maven Central or mvnrepository''), w')
                   \<longleftrightarrow> search_mvnrepository E g a ?w1 = (None, w'))
          \<and> (\<forall>info w2. search_mvnrepository E g a ?w1 = (Some info, w2)
                \<longrightarrow> process_item E chk item w =
                  (let folder = (case i_folder item of None \<Rightarrow> ''misc'' | Some f \<Rightarrow> f);
                       dest_dir = path_join REPO_DIR folder
                   in if chk \<and> path_exists w2 (path_join dest_dir (jar_name a (py_format (mi_version info))))
                      then Inr (Some (AlreadyExists g a (mi_version info) folder), w2)
                      else
                        (case fetch_additional E g a (py_format (mi_version info)) dest_dir (i_repoUrl item) w2 of
                           Inl e \<Rightarrow> Inl e
                         | Inr ((ok, src), w3) \<Rightarrow>
                             if ok then Inr (Some (Downloaded g a (mi_version info) folder src), w3)
                             else Inr (Some (Failed g a (''Failed to download '' @ py_format (mi_version info)
                                                           @ '' from any repository'')), w3))))"
    if h: "i_groupId item = Some g" "g \<noteq> []" "i_artifactId item = Some a" "a \<noteq> []"
       "\<not> truthy (i_version item)" "i_source item \<noteq> Some ''BND Hub''"
  proof -
    note eq = process_item_after_lookup [OF assms h, where chk = chk and w = w]
    obtain res w2 where s: "search_mvnrepository E g a ?w1 = (res, w2)"
      by (cases "search_mvnrepository E g a ?w1")
    show ?thesis
    proof (cases res)
      case None
      then show ?thesis using eq s by (simp add: Let_def)
    next
      case (Some info)
      show ?thesis
        unfolding eq s Some
        by (auto simp: Let_def split: sum.splits prod.splits)
    qed
  qed
  from m r q p u show ?thesis by blast
qed

lemma map_sum_Inr_fst: "map_sum id fst x = Inr y \<Longrightarrow> \<exists>w. x = Inr (y, w)"
  by (cases x) auto

theorem central_not_found_fallback_witness:
  "resolve_latest central_down_net ''org.x'' ''a'' empty_world
     = Inr (search_mvnrepository central_down_net ''org.x'' ''a''
              (empty_world\<lparr>requests := requests empty_world @ [SearchMaven ''org.x'' ''a'']\<rparr>))
   \<and> process_bundle central_down_net (load_bundles example_config)
         (''X'', entry ''X'' ''1.2.0'' (Some ''libs/x-1.2.0.jar'')) empty_world
     = Inr (Unavailable ''X'' ''org.x'' ''a'' ''1.2.0'' (Some ''libs/x-1.2.0.jar''),
            empty_world\<lparr>requests := requests empty_world @ [SearchMaven ''org.x'' ''a'']\<rparr>)
   \<and> process_item (constant_net ''PK'') False unpinned_item empty_world
     = Inr (Some (Failed ''org.x'' ''a'' ''Not found on Maven Central or mvnrepository''),
            snd (search_mvnrepository (constant_net ''PK'') ''org.x'' ''a''
                   (empty_world\<lparr>requests := requests empty_world @ [SearchMaven ''org.x'' ''a'']\<rparr>)))
   \<and> (\<exists>w'. process_item central_down_net False unpinned_item empty_world
              = Inr (Some (Downloaded ''org.x'' ''a'' (Some ''2.0.0'') ''libs'' ''Maven Central''), w'))"
proof -
  let ?w1 = "empty_world\<lparr>requests := requests empty_world @ [SearchMaven ''org.x'' ''a'']\<rparr>"
  let ?info = "\<lparr>mi_version = Some ''2.0.0'', mi_group_id = Some ''org.x'', mi_artifact_id = Some ''a''\<rparr>"
  let ?w2 = "?w1\<lparr>requests := requests ?w1 @ [SearchMvnRepository ''org.x'' ''a'']\<rparr>"
  have h1: "central_not_found central_down_net ''org.x'' ''a''"
    by (simp add: central_not_found_def central_down_net_def quiet_env_def)
  have h2: "central_not_found (constant_net ''PK'') ''org.x'' ''a''"
    by (simp add: central_not_found_def constant_net_def quiet_env_def)
  have m: "load_bundles example_config ''X'' = Some (Some (''org.x'', ''a''))"
    by (simp add: load_bundles_def example_config_def coordinates_def)
  have i: "i_groupId unpinned_item = Some ''org.x'' \<and> ''org.x'' \<noteq> []
           \<and> i_artifactId unpinned_item = Some ''a'' \<and> ''a'' \<noteq> []
           \<and> \<not> truthy (i_version unpinned_item) \<and> i_source unpinned_item \<noteq> Some ''BND Hub''"
    by (simp add: unpinned_item_def truthy_def)
  have f: "search_mvnrepository (constant_net ''PK'') ''org.x'' ''a'' ?w1
             = (None, snd (search_mvnrepository (constant_net ''PK'') ''org.x'' ''a'' ?w1))"
    by (simp add: search_mvnrepository_def constant_net_def quiet_env_def Let_def)
  have s: "search_mvnrepository central_down_net ''org.x'' ''a'' ?w1 = (Some ?info, ?w2)"
    by (simp add: search_mvnrepository_def central_down_net_def quiet_env_def Let_def)
  have v: "b_version (entry ''X'' ''1.2.0'' (Some ''libs/x-1.2.0.jar'')) = ''1.2.0''"
          "b_url (entry ''X'' ''1.2.0'' (Some ''libs/x-1.2.0.jar'')) = Some ''libs/x-1.2.0.jar''"
    by (simp_all add: entry_def)
  have fetch: "\<exists>w3. fetch_additional central_down_net ''org.x'' ''a'' ''2.0.0''
                 (path_join REPO_DIR ''libs'') None ?w2 = Inr ((True, ''Maven Central''), w3)"
  proof -
    have "map_sum id fst (fetch_additional central_down_net ''org.x'' ''a'' ''2.0.0''
                 (path_join REPO_DIR ''libs'') None ?w2) = Inr (True, ''Maven Central'')"
      by code_simp
    then show ?thesis by (rule map_sum_Inr_fst)
  qed
  note a = central_not_found_fallback [OF h1, where w = empty_world
      and B = "load_bundles example_config" and i = "''X''"
      and b = "entry ''X'' ''1.2.0'' (Some ''libs/x-1.2.0.jar'')"
      and item = unpinned_item and chk = False]
  note c = central_not_found_fallback [OF h2, where w = empty_world and item = unpinned_item and chk = False]
  from a m have a1: "resolve_latest central_down_net ''org.x'' ''a'' empty_world
     = Inr (search_mvnrepository central_down_net ''org.x'' ''a'' ?w1)"
    and a2: "process_bundle central_down_net (load_bundles example_config)
         (''X'', entry ''X'' ''1.2.0'' (Some ''libs/x-1.2.0.jar'')) empty_world
     = Inr (Unavailable ''X'' ''org.x'' ''a'' ''1.2.0'' (Some ''libs/x-1.2.0.jar''), ?w1)"
    unfolding v by blast+
  from c i f have c1: "process_item (constant_net ''PK'') False unpinned_item empty_world
     = Inr (Some (Failed ''org.x'' ''a'' ''Not found on Maven Central or mvnrepository''),
            snd (search_mvnrepository (constant_net ''PK'') ''org.x'' ''a'' ?w1))"
    by blast
  from a i s have a3: "process_item central_down_net False unpinned_item empty_world =
      (let folder = (case i_folder unpinned_item of None \<Rightarrow> ''misc'' | Some f \<Rightarrow> f);
           dest_dir = path_join REPO_DIR folder
       in if False \<and> path_exists ?w2 (path_join dest_dir (jar_name ''a'' (py_format (mi_version ?info))))
          then Inr (Some (AlreadyExists ''org.x'' ''a'' (mi_version ?info) folder), ?w2)
          else
            (case fetch_additional central_down_net ''org.x'' ''a'' (py_format (mi_version ?info)) dest_dir
                    (i_repoUrl unpinned_item) ?w2 of
               Inl e \<Rightarrow> Inl e
             | Inr ((ok, src), w3) \<Rightarrow>
                 if ok then Inr (Some (Downloaded ''org.x'' ''a'' (mi_version ?info) folder src), w3)
                 else Inr (Some (Failed ''org.x'' ''a'' (''Failed to download '' @ py_format (mi_version ?info)
                                               @ '' from any repository'')), w3)))"
    by blast
  from fetch obtain w3 where w3: "fetch_additional central_down_net ''org.x'' ''a'' ''2.0.0''
                 (path_join REPO_DIR ''libs'') None ?w2 = Inr ((True, ''Maven Central''), w3)"
    by blast
  have a4: "process_item central_down_net False unpinned_item empty_world
              = Inr (Some (Downloaded ''org.x'' ''a'' (Some ''2.0.0'') ''libs'' ''Maven Central''), w3)"
    unfolding a3 using w3 by (simp add: unpinned_item_def py_format_def Let_def)
  from a1 a2 c1 a4 show ?thesis by blast
qed

text \<open>
  The claim as it was written fails for an index entry: with Maven Central out of reach
  the entry X is Unavailable after the one request to Maven Central, and mvnrepository,
  which would have answered with release 2.0.0, is not asked.
\<close>

theorem index_entry_no_fallback:
  "process_bundle central_down_net (load_bundles example_config)
         (''X'', entry ''X'' ''1.2.0'' (Some ''libs/x-1.2.0.jar'')) empty_world
     = Inr (Unavailable ''X'' ''org.x'' ''a'' ''1.2.0'' (Some ''libs/x-1.2.0.jar''),
            empty_world\<lparr>requests := [SearchMaven ''org.x'' ''a'']\<rparr>)
   \<and> fst (search_mvnrepository central_down_net ''org.x'' ''a''
            (empty_world\<lparr>requests := [SearchMaven ''org.x'' ''a'']\<rparr>))
     = Some \<lparr>mi_version = Some ''2.0.0'', mi_group_id = Some ''org.x'', mi_artifact_id = Some ''a''\<rparr>"
proof -
  have h: "central_not_found central_down_net ''org.x'' ''a''"
    by (simp add: central_not_found_def central_down_net_def quiet_env_def)
  have m: "load_bundles example_config ''X'' = Some (Some (''org.x'', ''a''))"
    by (simp add: load_bundles_def example_config_def coordinates_def)
  have g: "get_latest_version_from_maven central_down_net ''org.x'' ''a'' empty_world
             = Inr (None, empty_world\<lparr>requests := requests empty_world @ [SearchMaven ''org.x'' ''a'']\<rparr>)"
    using h maven_not_found by blast
  have p: "process_bundle central_down_net (load_bundles example_config)
         (''X'', entry ''X'' ''1.2.0'' (Some ''libs/x-1.2.0.jar'')) empty_world
     = Inr (Unavailable ''X'' ''org.x'' ''a'' ''1.2.0'' (Some ''libs/x-1.2.0.jar''),
            empty_world\<lparr>requests := [SearchMaven ''org.x'' ''a'']\<rparr>)"
    using g by (simp add: process_bundle_def Let_def m entry_def empty_world_def)
  have s: "fst (search_mvnrepository central_down_net ''org.x'' ''a''
            (empty_world\<lparr>requests := [SearchMaven ''org.x'' ''a'']\<rparr>))
     = Some \<lparr>mi_version = Some ''2.0.0'', mi_group_id = Some ''org.x'', mi_artifact_id = Some ''a''\<rparr>"
    by (simp add: search_mvnrepository_def central_down_net_def quiet_env_def Let_def)
  from p s show ?thesis by blast
qed

text \<open>
  What the loop body does when every call it makes returns: the order of the decisions,
  and one record more in exactly one of the six lists.
\<close>

lemma add_outcome_one_record: "count_results (add_outcome out r) = Suc (count_results r)"
  by (cases out) (simp_all add: count_results_def)

lemma process_bundle_decision_order:
  "(B i = None \<longrightarrow>
      process_bundle E B (i, b) w = Inr (NotMapped i (b_version b) (b_url b), w))
   \<and> (B i = Some None \<longrightarrow>
      process_bundle E B (i, b) w = Inr (LocalOnly i (b_version b) (b_url b), w))
   \<and> (B i = Some (Some (g, a)) \<and> get_latest_version_from_maven E g a w = Inr (None, w1) \<longrightarrow>
      process_bundle E B (i, b) w = Inr (Unavailable i g a (b_version b) (b_url b), w1))
   \<and> (B i = Some (Some (g, a)) \<and> get_latest_version_from_maven E g a w = Inr (Some info, w1)
        \<and> mi_version info = Some latest \<and> compare_versions (b_version b) latest = Inr c \<and> c \<ge> 0 \<longrightarrow>
      process_bundle E B (i, b) w = Inr (UpToDate i g a (b_version b), w1))
   \<and> (B i = Some (Some (g, a)) \<and> get_latest_version_from_maven E g a w = Inr (Some info, w1)
        \<and> mi_version info = Some latest \<and> compare_versions (b_version b) latest = Inr c \<and> c < 0
        \<and> get_dest_dir_from_url (b_url b) = Inr d
        \<and> download_jar E g a latest d None w1 = Inr (ok, w2) \<longrightarrow>
      process_bundle E B (i, b) w =
        Inr (if ok then Updated i g a (b_version b) latest
             else Error i (''Failed to download '' @ latest) g a, w2))"
  by (simp add: process_bundle_def Let_def)

text \<open>
  The scenario of an entry X at 1.2.0 with Maven Central at 1.3.0: the outcome is Updated
  and a-1.3.0.jar is in the folder named by the URL of the entry.
\<close>

lemma end_to_end_update:
  "map_sum id (\<lambda>(out, w). (out, files w (Path Repo [''dependencies'', ''libs'', ''a-1.3.0.jar''])))
     (process_bundle newer_net (load_bundles example_config)
        (''X'', entry ''X'' ''1.2.0'' (Some ''libs/x-1.2.0.jar'')) empty_world)
   = Inr (Updated ''X'' ''org.x'' ''a'' ''1.2.0'' ''1.3.0'', Some ''PK-jar-bytes'')"
  by code_simp

text \<open>
  What the selection does keep, for every index: an entry of the identity whose version
  string no other entry of the identity exceeds as a string.
\<close>

lemma set_insert_by_version: "set (insert_by_version x ys) = insert x (set ys)"
  by (induction ys) auto

lemma sorted_insert_by_version:
  "sorted_wrt version_ge ys \<Longrightarrow> sorted_wrt version_ge (insert_by_version x ys)"
proof (induction ys)
  case Nil
  then show ?case by simp
next
  case (Cons y ys)
  show ?case
  proof (cases "str_lt (b_version y) (b_version x)")
    case True
    have "version_ge x y" using True str_lt_asym by (simp add: version_ge_def)
    moreover have "version_ge x z" if "z \<in> set ys" for z
    proof -
      have "version_ge y z" using Cons.prems that by simp
      then show ?thesis
        using True unfolding version_ge_def by (metis str_lt_trans)
    qed
    ultimately show ?thesis using True Cons.prems by simp
  next
    case False
    then show ?thesis
      using Cons by (auto simp: set_insert_by_version version_ge_def)
  qed
qed

lemma sort_by_version_acc:
  "sorted_wrt version_ge acc \<Longrightarrow>
     sorted_wrt version_ge (foldl (\<lambda>acc x. insert_by_version x acc) acc vs)
     \<and> set (foldl (\<lambda>acc x. insert_by_version x acc) acc vs) = set acc \<union> set vs"
  by (induction vs arbitrary: acc) (auto simp: sorted_insert_by_version set_insert_by_version)

lemma sort_by_version_head:
  assumes "sort_by_version vs = b # rest"
  shows "b \<in> set vs \<and> (\<forall>x \<in> set vs. \<not> str_lt (b_version b) (b_version x))"
proof -
  have s: "sorted_wrt version_ge (b # rest)" and e: "set (b # rest) = set vs"
    using sort_by_version_acc [of "[]" vs] assms by (simp_all add: sort_by_version_def)
  have "b \<in> set vs" using e by auto
  moreover have "\<not> str_lt (b_version b) (b_version x)" if "x \<in> set vs" for x
  proof -
    from that e have "x = b \<or> x \<in> set rest" by auto
    then show ?thesis using s by (auto simp: version_ge_def str_lt_irrefl)
  qed
  ultimately show ?thesis by blast
qed

text \<open>When the loop over the index entries returns, it has added one record per entry.\<close>

lemma process_bundles_count:
  "process_bundles E B items r w = Inr (r', w') \<Longrightarrow>
     count_results r' = count_results r + length items"
proof (induction items arbitrary: r w)
  case Nil
  then show ?case by simp
next
  case (Cons item items)
  then show ?case
    by (auto simp: add_outcome_one_record split: sum.splits prod.splits)
qed

text \<open>The other outcomes on the same mapping.\<close>

lemma outcome_examples:
  "map_sum id fst (process_bundle no_download_net (load_bundles example_config)
      (''X'', entry ''X'' ''1.2.0'' (Some ''libs/x-1.2.0.jar'')) empty_world)
     = Inr (Error ''X'' ''Failed to download 1.3.0'' ''org.x'' ''a'')
   \<and> map_sum id fst (process_bundle newer_net (load_bundles example_config)
      (''X'', entry ''X'' ''1.3.0'' None) empty_world)
     = Inr (UpToDate ''X'' ''org.x'' ''a'' ''1.3.0'')
   \<and> map_sum id fst (process_bundle newer_net (load_bundles example_config)
      (''L'', entry ''L'' ''1.2.0'' None) empty_world)
     = Inr (LocalOnly ''L'' ''1.2.0'' None)
   \<and> map_sum id fst (process_bundle newer_net (load_bundles example_config)
      (''Z'', entry ''Z'' ''1.2.0'' None) empty_world)
     = Inr (NotMapped ''Z'' ''1.2.0'' None)"
  by code_simp

section \<open>Properties of the additional downloads\<close>

lemma keeps_refl [simp]: "keeps w w"
  by (simp add: keeps_def)


lemma keeps_requests [simp]: "keeps w (w'\<lparr>requests := r\<rparr>) = keeps w w'"
  by (simp add: keeps_def)

lemma keeps_made [simp]: "keeps w (made d w)"
  by (simp add: keeps_def made_def)





































text \<open>
  A run without index on a comment, an entry without version and an entry with a pinned
  version: the first is skipped, the second is resolved by Maven Central, and both jars
  are fetched and recorded.
\<close>

lemma additional_downloads_example:
  "map_sum id (\<lambda>((r, ar), w). (r, ar,
        files w (Path Repo [''dependencies'', ''libs'', ''a-1.3.0.jar'']),
        files w (Path Repo [''dependencies'', ''misc'', ''b-2.0.jar'']),
        requests w))
     (main_update newer_net example_config [comment_item, unpinned_item, pinned_item] None empty_world)
   = Inr (empty_results,
          \<lparr>a_downloaded = [Downloaded ''org.x'' ''a'' (Some ''1.3.0'') ''libs'' ''Maven Central'',
                            Downloaded ''org.y'' ''b'' (Some ''2.0'') ''misc'' ''Maven Central''],
            a_errors = [], a_already_exists = []\<rparr>,
          Some ''PK-jar-bytes'', Some ''PK-jar-bytes'',
          [SearchMaven ''org.x'' ''a'',
           GetUrl ''https://repo1.maven.org/maven2/org/x/a/1.3.0/a-1.3.0.jar'',
           GetUrl ''https://repo1.maven.org/maven2/org/y/b/2.0/b-2.0.jar''])"
  by code_simp

end
